theory Spec2Isabelle
  imports Main "HOL-Library.Word"
begin

unbundle bit_operations_syntax

section \<open>LP8755 regulator driver: data model\<close>

text \<open>
  The driver \<^verbatim>\<open>drivers/regulator/lp8755.c\<close> talks to the chip through a register map
  with 8-bit addresses and 8-bit values. Values handled by the driver are C
  \<^verbatim>\<open>unsigned int\<close> and are modelled as 32-bit words; the device stores bytes.
\<close>

type_synonym u8 = "8 word"
type_synonym u32 = "32 word"

text \<open>
  Errors as values. \<open>Inl e\<close> stands for a negative return value of the C function:
  \<open>EINVAL\<close>, \<open>ENOMEM\<close> and \<open>EOPNOTSUPP\<close> are the errno constants the driver returns itself,
  \<open>BusError n\<close> is the errno \<open>-n\<close> handed back by the register map, and
  \<open>RegistrationFailure n\<close> is \<open>PTR_ERR\<close> of the error pointer returned by
  \<^verbatim>\<open>regulator_register\<close>, \<open>RegmapInitFailure n\<close> that of \<^verbatim>\<open>devm_regmap_init_i2c\<close>,
  and \<open>IrqRequestFailure n\<close> the errno of \<^verbatim>\<open>request_threaded_irq\<close>.
\<close>

datatype error =
    EINVAL
  | ENOMEM
  | EOPNOTSUPP
  | BusError nat
  | RegistrationFailure nat
  | RegmapInitFailure nat
  | IrqRequestFailure nat

text \<open>
  Modelled from the spec: the event codes \<^verbatim>\<open>LP8755_EVENT_PWR_FAULT\<close>,
  \<^verbatim>\<open>LP8755_EVENT_OCP\<close> and \<^verbatim>\<open>LP8755_EVENT_OVP\<close> are declared in
  \<^verbatim>\<open>linux/platform_data/lp8755.h\<close>, which is not among the sources. The spec (3) has
  the fault classes power-fault, over-current and over-voltage; the handler sends no
  other.
\<close>

datatype lp8755_event = LP8755_EVENT_PWR_FAULT | LP8755_EVENT_OCP | LP8755_EVENT_OVP

text \<open>
  What the driver does to the outside world, in the order it does it: register
  transactions (attempted, whether or not the bus completes them) and calls into the
  regulator framework and the interrupt subsystem. Rails are named by their identifier.
\<close>

datatype action =
    Reg_read nat
  | Reg_write nat u32
  | Registered nat
  | Register_rejected nat
  | Unregistered nat
  | Notified nat lp8755_event
  | Irq_requested int
  | Irq_freed int

text \<open>
  The world outside the driver: the chip's register file, the outcome of the coming bus
  transactions (\<open>None\<close>: the transaction completes, \<open>Some n\<close>: it fails with errno
  \<open>-n\<close>; an exhausted list means no further failure), the log of actions, and the
  answers of the regulator framework (\<open>reg_errno\<close>, per rail identifier) and of
  \<^verbatim>\<open>request_threaded_irq\<close> (\<open>irq_errno\<close>).
\<close>

record world =
  regs :: "nat \<Rightarrow> u8"
  faults :: "nat option list"
  trace :: "action list"
  reg_errno :: "nat \<Rightarrow> nat option"
  irq_errno :: "nat option"

subsection \<open>Register access layer\<close>

text \<open>
  Modelled from the spec: \<^verbatim>\<open>regmap_read\<close>, \<^verbatim>\<open>regmap_write\<close> and
  \<^verbatim>\<open>regmap_update_bits\<close> belong to the kernel's regmap core, which is not among the
  sources. The spec (4.1) gives \<open>read(addr) -> byte | BusError\<close>,
  \<open>write(addr, byte) -> () | BusError\<close> and \<open>update(addr, mask, value)\<close> as
  read-modify-write: read current byte, clear masked bits, OR in \<open>value & mask\<close>,
  write back. Each read or write is one bus transaction and consumes one entry of
  \<open>faults\<close>; a failed transaction leaves the register file as it was.
\<close>

definition regmap_read :: "nat \<Rightarrow> world \<Rightarrow> (error + u32) \<times> world" where
  "regmap_read reg w =
     (let w1 = w\<lparr>trace := trace w @ [Reg_read reg], faults := tl (faults w)\<rparr> in
      case faults w of
        Some n # _ \<Rightarrow> (Inl (BusError n), w1)
      | _ \<Rightarrow> (Inr (ucast (regs w reg)), w1))"

definition regmap_write :: "nat \<Rightarrow> u32 \<Rightarrow> world \<Rightarrow> (error + unit) \<times> world" where
  "regmap_write reg val w =
     (let w1 = w\<lparr>trace := trace w @ [Reg_write reg val], faults := tl (faults w)\<rparr> in
      case faults w of
        Some n # _ \<Rightarrow> (Inl (BusError n), w1)
      | _ \<Rightarrow> (Inr (), w1\<lparr>regs := (regs w)(reg := ucast val)\<rparr>))"

definition regmap_update_bits :: "nat \<Rightarrow> u32 \<Rightarrow> u32 \<Rightarrow> world \<Rightarrow> (error + unit) \<times> world" where
  "regmap_update_bits reg msk val w =
     (case regmap_read reg w of
        (Inl e, w1) \<Rightarrow> (Inl e, w1)
      | (Inr orig, w1) \<Rightarrow> regmap_write reg ((orig AND NOT msk) OR (val AND msk)) w1)"

definition lp8755_read :: "nat \<Rightarrow> world \<Rightarrow> (error + u32) \<times> world" where
  "lp8755_read reg w = regmap_read reg w"

definition lp8755_write :: "nat \<Rightarrow> u32 \<Rightarrow> world \<Rightarrow> (error + unit) \<times> world" where
  "lp8755_write reg val w = regmap_write reg val w"

definition lp8755_update_bits :: "nat \<Rightarrow> u32 \<Rightarrow> u32 \<Rightarrow> world \<Rightarrow> (error + unit) \<times> world" where
  "lp8755_update_bits reg msk val w = regmap_update_bits reg msk val w"

subsection \<open>Rail descriptors\<close>

definition LP8755_REG_BUCK0 :: nat where "LP8755_REG_BUCK0 = 0x00"
definition LP8755_REG_BUCK1 :: nat where "LP8755_REG_BUCK1 = 0x03"
definition LP8755_REG_BUCK2 :: nat where "LP8755_REG_BUCK2 = 0x04"
definition LP8755_REG_BUCK3 :: nat where "LP8755_REG_BUCK3 = 0x01"
definition LP8755_REG_BUCK4 :: nat where "LP8755_REG_BUCK4 = 0x05"
definition LP8755_REG_BUCK5 :: nat where "LP8755_REG_BUCK5 = 0x02"

definition LP8755_BUCK_EN_M :: u32 where "LP8755_BUCK_EN_M = push_bit 7 1"
definition LP8755_BUCK_LINEAR_OUT_MAX :: u32 where "LP8755_BUCK_LINEAR_OUT_MAX = 0x76"
definition LP8755_BUCK_VOUT_M :: u32 where "LP8755_BUCK_VOUT_M = 0x7F"

text \<open>
  Modelled from the spec: \<^verbatim>\<open>LP8755_BUCK_MAX\<close> is declared in
  \<^verbatim>\<open>linux/platform_data/lp8755.h\<close>, which is not among the sources. The spec (3) has
  6 possible rail identifiers, 0..5, as the six descriptors below have.
\<close>

definition LP8755_BUCK_MAX :: nat where "LP8755_BUCK_MAX = 6"

record regulator_desc =
  desc_id :: nat
  n_voltages :: u32
  enable_reg :: nat
  enable_mask :: u32
  vsel_reg :: nat
  vsel_mask :: u32

text \<open>The macro \<^verbatim>\<open>lp8755_buck_desc(_id)\<close>; \<open>reg\<close> is \<^verbatim>\<open>LP8755_REG_BUCK##_id\<close>.\<close>

definition lp8755_buck_desc :: "nat \<Rightarrow> nat \<Rightarrow> regulator_desc" where
  "lp8755_buck_desc i reg =
     \<lparr>desc_id = i, n_voltages = LP8755_BUCK_LINEAR_OUT_MAX + 1,
      enable_reg = reg, enable_mask = LP8755_BUCK_EN_M,
      vsel_reg = reg, vsel_mask = LP8755_BUCK_VOUT_M\<rparr>"

definition lp8755_regulators :: "regulator_desc list" where
  "lp8755_regulators =
     [lp8755_buck_desc 0 LP8755_REG_BUCK0,
      lp8755_buck_desc 1 LP8755_REG_BUCK1,
      lp8755_buck_desc 2 LP8755_REG_BUCK2,
      lp8755_buck_desc 3 LP8755_REG_BUCK3,
      lp8755_buck_desc 4 LP8755_REG_BUCK4,
      lp8755_buck_desc 5 LP8755_REG_BUCK5]"

text \<open>
  A rail handle (\<^verbatim>\<open>struct regulator_dev\<close>): the driver reads only its descriptor; its
  driver data is the one chip.
\<close>

record regulator_dev =
  desc :: regulator_desc

definition rdev_get_id :: "regulator_dev \<Rightarrow> nat" where
  "rdev_get_id rdev = desc_id (desc rdev)"

text \<open>The handle the framework hands out for rail \<open>i\<close>.\<close>

definition buck :: "nat \<Rightarrow> regulator_dev" where
  "buck i = \<lparr>desc = lp8755_regulators ! i\<rparr>"

section \<open>Rail controller\<close>

subsection \<open>Voltage table\<close>

text \<open>
  \<^verbatim>\<open>lp8755_list_voltage_buck\<close>: the arithmetic is \<^verbatim>\<open>unsigned int\<close>, the result is
  returned as \<^verbatim>\<open>int\<close>.
\<close>

definition lp8755_list_voltage_buck :: "regulator_dev \<Rightarrow> u32 \<Rightarrow> error + int" where
  "lp8755_list_voltage_buck rdev selector =
     (if selector \<ge> n_voltages (desc rdev) then Inl EINVAL
      else Inr (sint (500000 + (10000 * selector))))"

subsection \<open>Ramp rate\<close>

text \<open>The \<^verbatim>\<open>switch (ramp)\<close> of \<^verbatim>\<open>lp8755_buck_set_ramp\<close>; \<open>None\<close> is its default arm.\<close>

definition ramp_regval :: "int \<Rightarrow> u32 option" where
  "ramp_regval ramp =
     (if 0 \<le> ramp \<and> ramp \<le> 230 then Some 0x07
      else if 231 \<le> ramp \<and> ramp \<le> 470 then Some 0x06
      else if 471 \<le> ramp \<and> ramp \<le> 940 then Some 0x05
      else if 941 \<le> ramp \<and> ramp \<le> 1900 then Some 0x04
      else if 1901 \<le> ramp \<and> ramp \<le> 3800 then Some 0x03
      else if 3801 \<le> ramp \<and> ramp \<le> 7500 then Some 0x02
      else if 7501 \<le> ramp \<and> ramp \<le> 15000 then Some 0x01
      else if 15001 \<le> ramp \<and> ramp \<le> 30000 then Some 0x00
      else None)"

definition lp8755_buck_set_ramp :: "regulator_dev \<Rightarrow> int \<Rightarrow> world \<Rightarrow> (error + unit) \<times> world" where
  "lp8755_buck_set_ramp rdev ramp w =
     (case ramp_regval ramp of
        None \<Rightarrow> (Inl EINVAL, w)
      | Some regval \<Rightarrow> lp8755_update_bits (0x07 + rdev_get_id rdev) 0x07 regval w)"

subsection \<open>Operating mode\<close>

text \<open>
  Modelled from the spec: the mode constants are declared in
  \<^verbatim>\<open>linux/regulator/consumer.h\<close>, which is not among the sources. The spec (4.3) has
  the modes Fast, Normal and Idle and "any other value"; the constants are distinct
  non-zero bit flags (0 is what \<^verbatim>\<open>lp8755_buck_get_mode\<close> returns on a bus error).
\<close>

definition REGULATOR_MODE_FAST :: u32 where "REGULATOR_MODE_FAST = 0x1"
definition REGULATOR_MODE_NORMAL :: u32 where "REGULATOR_MODE_NORMAL = 0x2"
definition REGULATOR_MODE_IDLE :: u32 where "REGULATOR_MODE_IDLE = 0x4"
definition REGULATOR_MODE_STANDBY :: u32 where "REGULATOR_MODE_STANDBY = 0x8"

text \<open>
  \<^verbatim>\<open>lp8755_buck_set_mode\<close>: the \<^verbatim>\<open>switch\<close> computes \<open>regbval\<close> (leaving through
  \<^verbatim>\<open>err_i2c\<close> on a failed update), then the rail's bit of register 0x06 is updated.
\<close>

definition set_mode_switch :: "nat \<Rightarrow> u32 \<Rightarrow> world \<Rightarrow> (error + u32) \<times> world" where
  "set_mode_switch i mode w =
     (if mode = REGULATOR_MODE_FAST then (Inr (push_bit i 0x01), w)
      else if mode = REGULATOR_MODE_NORMAL then
        (case lp8755_update_bits (0x08 + i) 0x20 0x00 w of
           (Inl e, w1) \<Rightarrow> (Inl e, w1)
         | (Inr _, w1) \<Rightarrow> (Inr 0x0, w1))
      else if mode = REGULATOR_MODE_IDLE then
        (case lp8755_update_bits (0x08 + i) 0x20 0x20 w of
           (Inl e, w1) \<Rightarrow> (Inl e, w1)
         | (Inr _, w1) \<Rightarrow>
             (case lp8755_update_bits 0x10 0x01 0x01 w1 of
                (Inl e, w2) \<Rightarrow> (Inl e, w2)
              | (Inr _, w2) \<Rightarrow> (Inr 0x0, w2)))
      else (Inr (push_bit i 0x01), w))"

definition lp8755_buck_set_mode :: "regulator_dev \<Rightarrow> u32 \<Rightarrow> world \<Rightarrow> (error + unit) \<times> world" where
  "lp8755_buck_set_mode rdev mode w =
     (let i = rdev_get_id rdev in
      case set_mode_switch i mode w of
        (Inl e, w1) \<Rightarrow> (Inl e, w1)
      | (Inr regbval, w1) \<Rightarrow> lp8755_update_bits 0x06 (push_bit i 0x01) regbval w1)"

text \<open>\<^verbatim>\<open>lp8755_buck_get_mode\<close> returns 0 when a register read fails.\<close>

definition lp8755_buck_get_mode :: "regulator_dev \<Rightarrow> world \<Rightarrow> u32 \<times> world" where
  "lp8755_buck_get_mode rdev w =
     (let i = rdev_get_id rdev in
      case lp8755_read 0x06 w of
        (Inl e, w1) \<Rightarrow> (0, w1)
      | (Inr regval, w1) \<Rightarrow>
          if regval AND push_bit i 0x01 \<noteq> 0 then (REGULATOR_MODE_FAST, w1)
          else
            (case lp8755_read (0x08 + i) w1 of
               (Inl e, w2) \<Rightarrow> (0, w2)
             | (Inr regval2, w2) \<Rightarrow>
                 if regval2 AND 0x20 \<noteq> 0 then (REGULATOR_MODE_IDLE, w2)
                 else (REGULATOR_MODE_NORMAL, w2)))"

subsection \<open>Voltage selection and enable\<close>

text \<open>
  The kernel's \<^verbatim>\<open>ffs\<close>: the 1-based position of the least significant set bit, 0 for
  no bit.
\<close>

definition ffs :: "u32 \<Rightarrow> nat" where
  "ffs x = (case find (bit x) [0..<32] of None \<Rightarrow> 0 | Some n \<Rightarrow> Suc n)"

text \<open>
  \<^verbatim>\<open>lp8755_set_voltage_buck_sel\<close>. The shift count \<^verbatim>\<open>ffs(mask) - 1\<close> is 0 for
  every descriptor of the driver (the mask is 0x7F); a zero mask, for which C would
  shift by -1, does not occur.
\<close>

definition lp8755_set_voltage_buck_sel :: "regulator_dev \<Rightarrow> u32 \<Rightarrow> world \<Rightarrow> (error + unit) \<times> world" where
  "lp8755_set_voltage_buck_sel rdev sel w =
     (let sel1 = push_bit (ffs (vsel_mask (desc rdev)) - 1) sel in
      lp8755_update_bits (vsel_reg (desc rdev)) (vsel_mask (desc rdev)) sel1 w)"

definition lp8755_get_voltage_buck_sel :: "regulator_dev \<Rightarrow> world \<Rightarrow> (error + u32) \<times> world" where
  "lp8755_get_voltage_buck_sel rdev w =
     (case lp8755_read (vsel_reg (desc rdev)) w of
        (Inl e, w1) \<Rightarrow> (Inl e, w1)
      | (Inr val, w1) \<Rightarrow>
          (Inr (drop_bit (ffs (vsel_mask (desc rdev)) - 1) (val AND vsel_mask (desc rdev))), w1))"

definition lp8755_enable_buck :: "regulator_dev \<Rightarrow> world \<Rightarrow> (error + unit) \<times> world" where
  "lp8755_enable_buck rdev w =
     lp8755_update_bits (enable_reg (desc rdev)) (enable_mask (desc rdev)) (enable_mask (desc rdev)) w"

definition lp8755_disable_buck :: "regulator_dev \<Rightarrow> world \<Rightarrow> (error + unit) \<times> world" where
  "lp8755_disable_buck rdev w =
     lp8755_update_bits (enable_reg (desc rdev)) (enable_mask (desc rdev)) 0 w"

text \<open>
  \<^verbatim>\<open>lp8755_is_enabled_buck\<close> declares \<^verbatim>\<open>unsigned int reg;\<close> without an initial
  value and ignores the return value of \<^verbatim>\<open>lp8755_read\<close>. A failed read stores
  nothing, so \<open>reg\<close> keeps whatever the stack slot held on entry: that value is the
  parameter \<open>reg_uninit\<close>. The C function returns \<^verbatim>\<open>!!(reg)\<close>, an \<^verbatim>\<open>int\<close> that is 0
  or 1.
\<close>

definition lp8755_is_enabled_buck :: "u32 \<Rightarrow> regulator_dev \<Rightarrow> world \<Rightarrow> int \<times> world" where
  "lp8755_is_enabled_buck reg_uninit rdev w =
     (case lp8755_read (enable_reg (desc rdev)) w of
        (r, w1) \<Rightarrow>
          let reg = (case r of Inl e \<Rightarrow> reg_uninit | Inr val \<Rightarrow> val);
              reg1 = reg AND enable_mask (desc rdev)
          in (if reg1 \<noteq> 0 then 1 else 0, w1))"

definition lp8755_buck_enable_time :: "regulator_dev \<Rightarrow> world \<Rightarrow> (error + int) \<times> world" where
  "lp8755_buck_enable_time rdev w =
     (case lp8755_read (0x12 + rdev_get_id rdev) w of
        (Inl e, w1) \<Rightarrow> (Inl e, w1)
      | (Inr regval, w1) \<Rightarrow> (Inr (sint ((regval AND 0xff) * 100)), w1))"

section \<open>Multi-phase topology\<close>

definition BUCK0 :: nat where "BUCK0 = 0"
definition BUCK1 :: nat where "BUCK1 = 1"
definition BUCK2 :: nat where "BUCK2 = 2"
definition BUCK3 :: nat where "BUCK3 = 3"
definition BUCK4 :: nat where "BUCK4 = 4"
definition BUCK5 :: nat where "BUCK5 = 5"

record lp8755_mphase =
  nreg :: nat
  buck_num :: "nat list"

text \<open>
  Modelled from the spec: \<^verbatim>\<open>MPHASE_CONF_MAX\<close>, the declared size of the table, comes
  from \<^verbatim>\<open>linux/platform_data/lp8755.h\<close>, which is not among the sources. The spec (3)
  has exactly 9 valid codes, 0..8, and the initialiser of the table has 9 entries.
\<close>

definition MPHASE_CONF_MAX :: nat where "MPHASE_CONF_MAX = 9"

text \<open>
  The table \<^verbatim>\<open>mphase_buck\<close>. Each \<open>buck_num\<close> array has \<^verbatim>\<open>LP8755_BUCK_MAX\<close>
  elements; those the initialiser leaves out are zero in C.
\<close>

definition mphase_buck :: "lp8755_mphase list" where
  "mphase_buck =
     [\<lparr>nreg = 3, buck_num = [BUCK0, BUCK3, BUCK5, 0, 0, 0]\<rparr>,
      \<lparr>nreg = 6, buck_num = [BUCK0, BUCK1, BUCK2, BUCK3, BUCK4, BUCK5]\<rparr>,
      \<lparr>nreg = 5, buck_num = [BUCK0, BUCK2, BUCK3, BUCK4, BUCK5, 0]\<rparr>,
      \<lparr>nreg = 4, buck_num = [BUCK0, BUCK3, BUCK4, BUCK5, 0, 0]\<rparr>,
      \<lparr>nreg = 3, buck_num = [BUCK0, BUCK4, BUCK5, 0, 0, 0]\<rparr>,
      \<lparr>nreg = 2, buck_num = [BUCK0, BUCK5, 0, 0, 0, 0]\<rparr>,
      \<lparr>nreg = 1, buck_num = [BUCK0, 0, 0, 0, 0, 0]\<rparr>,
      \<lparr>nreg = 2, buck_num = [BUCK0, BUCK3, 0, 0, 0, 0]\<rparr>,
      \<lparr>nreg = 4, buck_num = [BUCK0, BUCK2, BUCK3, BUCK5, 0, 0]\<rparr>]"

text \<open>
  The array access \<^verbatim>\<open>mphase_buck[pchip->mphase]\<close>. The driver performs it without
  any range check; for an index outside 0..8 the C program reads past the table and its
  behaviour is undefined. \<open>None\<close> stands for that: no value and no error return.
\<close>

definition mphase_buck_at :: "int \<Rightarrow> lp8755_mphase option" where
  "mphase_buck_at code =
     (if 0 \<le> code \<and> code < int MPHASE_CONF_MAX then Some (mphase_buck ! nat code) else None)"

section \<open>Chip state\<close>

record regulator_init_data =
  constraints_name :: string
  min_uV :: int
  max_uV :: int

text \<open>The macro \<^verbatim>\<open>lp8755_buck_init(_id)\<close>; \<open>digit\<close> is the stringified \<open>_id\<close>.\<close>

definition lp8755_buck_init :: "string \<Rightarrow> regulator_init_data" where
  "lp8755_buck_init digit =
     \<lparr>constraints_name = ''lp8755_buck'' @ digit, min_uV = 500000, max_uV = 1675000\<rparr>"

definition lp8755_reg_default :: "regulator_init_data list" where
  "lp8755_reg_default =
     [lp8755_buck_init ''0'', lp8755_buck_init ''1'', lp8755_buck_init ''2'',
      lp8755_buck_init ''3'', lp8755_buck_init ''4'', lp8755_buck_init ''5'']"

text \<open>
  Modelled from the spec: \<^verbatim>\<open>struct lp8755_platform_data\<close> is declared in
  \<^verbatim>\<open>linux/platform_data/lp8755.h\<close>, which is not among the sources. The spec (6) has
  an optional externally supplied topology code and per-rail constraint overrides
  (bounds, ramp rate); the fields are the three the driver reads.
\<close>

record lp8755_platform_data =
  pdata_mphase :: int
  buck_data :: "nat \<Rightarrow> regulator_init_data option"
  ramp_us :: "nat \<Rightarrow> int"

text \<open>
  \<^verbatim>\<open>struct lp8755_chip\<close>. The arrays \<open>rdev\<close>, \<open>buck_data\<close> and \<open>ramp_us\<close> have
  \<^verbatim>\<open>LP8755_BUCK_MAX\<close> slots and are only indexed by table entries and loop counters
  below 6; a \<open>NULL\<close> slot is \<open>None\<close>.
\<close>

record lp8755_chip =
  pdata :: lp8755_platform_data
  irq :: int
  irqmask :: u32
  mphase :: int
  rdev :: "nat \<Rightarrow> regulator_dev option"

text \<open>Memory from \<^verbatim>\<open>devm_kzalloc\<close> is zero-filled.\<close>

definition zeroed_pdata :: lp8755_platform_data where
  "zeroed_pdata = \<lparr>pdata_mphase = 0, buck_data = (\<lambda>_. None), ramp_us = (\<lambda>_. 0)\<rparr>"

definition zeroed_chip :: lp8755_chip where
  "zeroed_chip = \<lparr>pdata = zeroed_pdata, irq = 0, irqmask = 0, mphase = 0, rdev = (\<lambda>_. None)\<rparr>"

section \<open>Regulator framework and interrupt subsystem\<close>

text \<open>
  Modelled from the spec: the rail registration framework (6) offers
  \<open>register_rail(descriptor, constraints) -> handle | Error\<close> and
  \<open>deregister_rail(handle)\<close>, and receives fault events through a notifier call. The
  kernel functions \<^verbatim>\<open>regulator_register\<close>, \<^verbatim>\<open>regulator_unregister\<close> and
  \<^verbatim>\<open>regulator_notifier_call_chain\<close> belong to the regulator core, and
  \<^verbatim>\<open>request_threaded_irq\<close> and \<^verbatim>\<open>free_irq\<close> to the interrupt delivery mechanism
  (1); neither is among the sources. Whether a registration or an interrupt request
  is accepted is the kernel's choice (\<open>reg_errno\<close>, \<open>irq_errno\<close>);
  \<^verbatim>\<open>regulator_unregister\<close> returns at once for a \<open>NULL\<close> handle.
\<close>

definition regulator_register ::
  "regulator_desc \<Rightarrow> regulator_init_data option \<Rightarrow> world \<Rightarrow> (error + regulator_dev) \<times> world" where
  "regulator_register d init w =
     (case reg_errno w (desc_id d) of
        Some n \<Rightarrow> (Inl (RegistrationFailure n), w\<lparr>trace := trace w @ [Register_rejected (desc_id d)]\<rparr>)
      | None \<Rightarrow> (Inr \<lparr>desc = d\<rparr>, w\<lparr>trace := trace w @ [Registered (desc_id d)]\<rparr>))"

definition regulator_unregister :: "regulator_dev option \<Rightarrow> world \<Rightarrow> world" where
  "regulator_unregister r w =
     (case r of
        None \<Rightarrow> w
      | Some rd \<Rightarrow> w\<lparr>trace := trace w @ [Unregistered (rdev_get_id rd)]\<rparr>)"

definition regulator_notifier_call_chain :: "regulator_dev \<Rightarrow> lp8755_event \<Rightarrow> world \<Rightarrow> world" where
  "regulator_notifier_call_chain rd ev w = w\<lparr>trace := trace w @ [Notified (rdev_get_id rd) ev]\<rparr>"

definition request_threaded_irq :: "int \<Rightarrow> world \<Rightarrow> (error + unit) \<times> world" where
  "request_threaded_irq n w =
     (case irq_errno w of
        Some e \<Rightarrow> (Inl (IrqRequestFailure e), w)
      | None \<Rightarrow> (Inr (), w\<lparr>trace := trace w @ [Irq_requested n]\<rparr>))"

definition free_irq :: "int \<Rightarrow> world \<Rightarrow> world" where
  "free_irq n w = w\<lparr>trace := trace w @ [Irq_freed n]\<rparr>"

section \<open>Chip lifecycle\<close>

text \<open>
  \<^verbatim>\<open>lp8755_init_data\<close>: reads the configuration register 0x3D, keeps its low four
  bits as \<open>mphase\<close> and fills in default constraints for the rails of that table entry.
\<close>

definition set_default_data :: "lp8755_mphase \<Rightarrow> nat \<Rightarrow> lp8755_chip \<Rightarrow> lp8755_chip" where
  "set_default_data mp icnt c =
     (let bn = buck_num mp ! icnt in
      c\<lparr>pdata := (pdata c)\<lparr>buck_data := (buck_data (pdata c))(bn := Some (lp8755_reg_default ! bn))\<rparr>\<rparr>)"

definition lp8755_init_data ::
  "lp8755_chip \<Rightarrow> world \<Rightarrow> ((error + unit) \<times> lp8755_chip \<times> world) option" where
  "lp8755_init_data pchip w =
     (case lp8755_read 0x3D w of
        (Inl e, w1) \<Rightarrow> Some (Inl e, pchip, w1)
      | (Inr regval, w1) \<Rightarrow>
          let c1 = pchip\<lparr>mphase := uint (regval AND 0x0F)\<rparr> in
          (case mphase_buck_at (mphase c1) of
             None \<Rightarrow> None
           | Some mp \<Rightarrow> Some (Inr (), fold (set_default_data mp) [0..<nreg mp] c1, w1)))"

text \<open>
  The registration loop of \<^verbatim>\<open>lp8755_regulator_init\<close>, over the loop counter values
  still to come. A rejected registration stores \<open>NULL\<close> in the rail's slot and leaves
  the loop (\<^verbatim>\<open>goto err_buck\<close>). The results of \<^verbatim>\<open>lp8755_buck_debug_fs_init\<close> (no
  effect on the chip or the bus) and of \<^verbatim>\<open>lp8755_buck_set_ramp\<close> are ignored.
\<close>

fun regulator_init_loop ::
  "lp8755_mphase \<Rightarrow> nat list \<Rightarrow> lp8755_chip \<Rightarrow> world \<Rightarrow> (error + unit) \<times> lp8755_chip \<times> world" where
  "regulator_init_loop mp [] c w = (Inr (), c, w)"
| "regulator_init_loop mp (icnt # rest) c w =
     (let bn = buck_num mp ! icnt;
          c1 = (if buck_data (pdata c) bn = None
                then c\<lparr>pdata := (pdata c)\<lparr>buck_data := (buck_data (pdata c))(bn := Some (lp8755_reg_default ! bn))\<rparr>\<rparr>
                else c)
      in case regulator_register (lp8755_regulators ! bn) (buck_data (pdata c1) bn) w of
           (Inl e, w1) \<Rightarrow> (Inl e, c1\<lparr>rdev := (rdev c1)(bn := None)\<rparr>, w1)
         | (Inr rd, w1) \<Rightarrow>
             let c2 = c1\<lparr>rdev := (rdev c1)(bn := Some rd)\<rparr>;
                 w2 = snd (lp8755_buck_set_ramp rd (ramp_us (pdata c2) bn) w1)
             in regulator_init_loop mp rest c2 w2)"

text \<open>A loop that hands every slot \<open>rdev[icnt]\<close>, for the given counter values, to \<^verbatim>\<open>regulator_unregister\<close>.\<close>

definition unregister_slots :: "lp8755_chip \<Rightarrow> nat list \<Rightarrow> world \<Rightarrow> world" where
  "unregister_slots c icnts w = fold (\<lambda>icnt. regulator_unregister (rdev c icnt)) icnts w"

definition lp8755_regulator_init ::
  "lp8755_chip \<Rightarrow> world \<Rightarrow> ((error + unit) \<times> lp8755_chip \<times> world) option" where
  "lp8755_regulator_init pchip w =
     (case mphase_buck_at (mphase pchip) of
        None \<Rightarrow> None
      | Some mp \<Rightarrow>
          (case regulator_init_loop mp [0..<nreg mp] pchip w of
             (Inl e, c1, w1) \<Rightarrow> Some (Inl e, c1, unregister_slots c1 [0..<LP8755_BUCK_MAX] w1)
           | (Inr u, c1, w1) \<Rightarrow> Some (Inr (), c1, w1)))"

subsection \<open>Interrupt handling\<close>

datatype irqreturn = IRQ_NONE | IRQ_HANDLED

text \<open>The first \<^verbatim>\<open>for\<close> loop of \<^verbatim>\<open>lp8755_irq_handler\<close>: power-fault events per rail.\<close>

definition pwr_fault_step :: "lp8755_chip \<Rightarrow> u32 \<Rightarrow> nat \<Rightarrow> world \<Rightarrow> world" where
  "pwr_fault_step pchip flag0 icnt w =
     (if flag0 AND push_bit icnt 0x4 \<noteq> 0 \<and> irqmask pchip AND push_bit icnt 0x04 \<noteq> 0
      then (case rdev pchip icnt of
              None \<Rightarrow> w
            | Some rd \<Rightarrow> regulator_notifier_call_chain rd LP8755_EVENT_PWR_FAULT w)
      else w)"

text \<open>The loops that send one event to every rail with a live handle.\<close>

definition notify_step :: "lp8755_chip \<Rightarrow> lp8755_event \<Rightarrow> nat \<Rightarrow> world \<Rightarrow> world" where
  "notify_step pchip ev icnt w =
     (case rdev pchip icnt of
        None \<Rightarrow> w
      | Some rd \<Rightarrow> regulator_notifier_call_chain rd ev w)"

text \<open>First half of \<^verbatim>\<open>lp8755_irq_handler\<close>: flag register 0x0D.\<close>

definition irq_flag0 :: "lp8755_chip \<Rightarrow> world \<Rightarrow> (error + unit) \<times> world" where
  "irq_flag0 pchip w =
     (case lp8755_read 0x0D w of
        (Inl e, w1) \<Rightarrow> (Inl e, w1)
      | (Inr flag0, w1) \<Rightarrow>
          (case lp8755_write 0x0D 0x00 w1 of
             (Inl e, w2) \<Rightarrow> (Inl e, w2)
           | (Inr _, w2) \<Rightarrow> (Inr (), fold (pwr_fault_step pchip flag0) [0..<6] w2)))"

text \<open>Second half: flag register 0x0E, over-current and over-voltage events.\<close>

definition irq_flag1 :: "lp8755_chip \<Rightarrow> world \<Rightarrow> (error + unit) \<times> world" where
  "irq_flag1 pchip w =
     (case lp8755_read 0x0E w of
        (Inl e, w1) \<Rightarrow> (Inl e, w1)
      | (Inr flag1, w1) \<Rightarrow>
          (case lp8755_write 0x0E 0x00 w1 of
             (Inl e, w2) \<Rightarrow> (Inl e, w2)
           | (Inr _, w2) \<Rightarrow>
               let w3 = (if flag1 AND 0x01 \<noteq> 0 \<and> irqmask pchip AND 0x01 \<noteq> 0
                         then fold (notify_step pchip LP8755_EVENT_OCP) [0..<LP8755_BUCK_MAX] w2
                         else w2);
                   w4 = (if flag1 AND 0x02 \<noteq> 0 \<and> irqmask pchip AND 0x02 \<noteq> 0
                         then fold (notify_step pchip LP8755_EVENT_OVP) [0..<LP8755_BUCK_MAX] w3
                         else w3)
               in (Inr (), w4)))"

definition lp8755_irq_handler :: "lp8755_chip \<Rightarrow> world \<Rightarrow> irqreturn \<times> world" where
  "lp8755_irq_handler pchip w =
     (case irq_flag0 pchip w of
        (Inl e, w1) \<Rightarrow> (IRQ_NONE, w1)
      | (Inr _, w1) \<Rightarrow>
          (case irq_flag1 pchip w1 of
             (Inl e, w2) \<Rightarrow> (IRQ_NONE, w2)
           | (Inr _, w2) \<Rightarrow> (IRQ_HANDLED, w2)))"

definition lp8755_int_config :: "lp8755_chip \<Rightarrow> world \<Rightarrow> (error + unit) \<times> lp8755_chip \<times> world" where
  "lp8755_int_config pchip w =
     (if irq pchip = 0 then (Inr (), pchip, w)
      else
        (case lp8755_read 0x0F w of
           (Inl e, w1) \<Rightarrow> (Inl e, pchip, w1)
         | (Inr regval, w1) \<Rightarrow>
             let c1 = pchip\<lparr>irqmask := regval\<rparr> in
             (case request_threaded_irq (irq c1) w1 of
                (Inl e, w2) \<Rightarrow> (Inl e, c1, w2)
              | (Inr _, w2) \<Rightarrow> (Inr (), c1, w2))))"

subsection \<open>Probe and remove\<close>

text \<open>
  What \<^verbatim>\<open>lp8755_probe\<close> is given: the client's platform data and interrupt number, and
  the outcome of the kernel services it calls before touching the chip.
\<close>

record i2c_client =
  i2c_functionality :: bool
  chip_alloc_ok :: bool
  regmap_errno :: "nat option"
  platform_data :: "lp8755_platform_data option"
  pdata_alloc_ok :: bool
  client_irq :: int

text \<open>The loop \<^verbatim>\<open>for (icnt = 0; icnt < 0x06; icnt++) lp8755_write(pchip, icnt, 0x00)\<close>.\<close>

definition output_disable :: "world \<Rightarrow> world" where
  "output_disable w = fold (\<lambda>icnt w1. snd (lp8755_write icnt 0x00 w1)) [0..<6] w"

text \<open>
  Chip data and regulators once the regmap exists: the part of \<^verbatim>\<open>lp8755_probe\<close> from
  the platform-data branch to the end, with its three error labels.
\<close>

definition probe_chip ::
  "i2c_client \<Rightarrow> lp8755_chip \<Rightarrow> world \<Rightarrow> ((error + lp8755_chip) \<times> world) option" where
  "probe_chip client pchip w =
     (case lp8755_regulator_init pchip w of
        None \<Rightarrow> None
      | Some (Inl e, c1, w1) \<Rightarrow> Some (Inl e, output_disable w1)
      | Some (Inr _, c1, w1) \<Rightarrow>
          let c2 = c1\<lparr>irq := client_irq client\<rparr> in
          (case lp8755_int_config c2 w1 of
             (Inl e, c3, w2) \<Rightarrow>
               (case mphase_buck_at (mphase c3) of
                  None \<Rightarrow> None
                | Some mp \<Rightarrow> Some (Inl e, output_disable (unregister_slots c3 [0..<nreg mp] w2)))
           | (Inr _, c3, w2) \<Rightarrow> Some (Inr c3, w2)))"

definition lp8755_probe :: "i2c_client \<Rightarrow> world \<Rightarrow> ((error + lp8755_chip) \<times> world) option" where
  "lp8755_probe client w =
     (if \<not> i2c_functionality client then Some (Inl EOPNOTSUPP, w)
      else if \<not> chip_alloc_ok client then Some (Inl ENOMEM, w)
      else
        (case regmap_errno client of
           Some n \<Rightarrow> Some (Inl (RegmapInitFailure n), w)
         | None \<Rightarrow>
             (case platform_data client of
                Some pd \<Rightarrow> probe_chip client (zeroed_chip\<lparr>pdata := pd, mphase := pdata_mphase pd\<rparr>) w
              | None \<Rightarrow>
                  if \<not> pdata_alloc_ok client then Some (Inl ENOMEM, w)
                  else
                    (case lp8755_init_data (zeroed_chip\<lparr>pdata := zeroed_pdata\<rparr>) w of
                       None \<Rightarrow> None
                     | Some (Inl e, c1, w1) \<Rightarrow> Some (Inl e, w1)
                     | Some (Inr _, c1, w1) \<Rightarrow> probe_chip client c1 w1))))"

text \<open>\<^verbatim>\<open>lp8755_remove\<close> always returns 0; the result is the world it leaves behind.\<close>

definition lp8755_remove :: "lp8755_chip \<Rightarrow> world \<Rightarrow> world option" where
  "lp8755_remove pchip w =
     (case mphase_buck_at (mphase pchip) of
        None \<Rightarrow> None
      | Some mp \<Rightarrow>
          let w1 = unregister_slots pchip [0..<nreg mp] w;
              w2 = output_disable w1
          in Some (if irq pchip \<noteq> 0 then free_irq (irq pchip) w2 else w2))"

section \<open>Observations on a run\<close>

text \<open>The next \<open>n\<close> bus transactions complete.\<close>

definition bus_quiet :: "nat \<Rightarrow> world \<Rightarrow> bool" where
  "bus_quiet n w = list_all (\<lambda>f. f = None) (take n (faults w))"

text \<open>The rails that received a power-fault event, in order.\<close>

fun pwr_fault_target :: "action \<Rightarrow> nat option" where
  "pwr_fault_target (Notified i LP8755_EVENT_PWR_FAULT) = Some i"
| "pwr_fault_target _ = None"

definition pwr_fault_events :: "action list \<Rightarrow> nat list" where
  "pwr_fault_events tr = List.map_filter pwr_fault_target tr"

text \<open>The calls into the regulator framework and the interrupt subsystem, without the bus traffic.\<close>

fun is_bus :: "action \<Rightarrow> bool" where
  "is_bus (Reg_read _) = True"
| "is_bus (Reg_write _ _) = True"
| "is_bus _ = False"

definition framework_calls :: "action list \<Rightarrow> action list" where
  "framework_calls tr = filter (\<lambda>a. \<not> is_bus a) tr"

text \<open>A world with all registers zero, a bus that never fails and a framework that accepts everything.\<close>

definition quiet_world :: world where
  "quiet_world = \<lparr>regs = (\<lambda>_. 0), faults = [], trace = [],
                  reg_errno = (\<lambda>_. None), irq_errno = None\<rparr>"

text \<open>Every live slot \<open>rdev[j]\<close> holds the handle of rail \<open>j\<close>, as registration stores it.\<close>

definition slots_ok :: "lp8755_chip \<Rightarrow> bool" where
  "slots_ok pchip = list_all (\<lambda>j. rdev pchip j = None \<or> rdev pchip j = Some (buck j)) [0..<6]"

text \<open>A chip with rail 2 registered and every interrupt unmasked; a world whose status register A shows rail 2's bit.\<close>

definition rail2_world :: world where
  "rail2_world = quiet_world\<lparr>regs := (\<lambda>_. 0)(0x0D := 0x10)\<rparr>"

definition rail2_chip :: lp8755_chip where
  "rail2_chip = zeroed_chip\<lparr>irqmask := 0xFF, rdev := (\<lambda>_. None)(2 := Some (buck 2))\<rparr>"

text \<open>A client without platform data and without an interrupt line, on a system where every allocation succeeds.\<close>

definition board_client :: i2c_client where
  "board_client = \<lparr>i2c_functionality = True, chip_alloc_ok = True, regmap_errno = None,
                    platform_data = None, pdata_alloc_ok = True, client_irq = 0\<rparr>"

text \<open>A chip whose configuration register 0x3D reads 0x09.\<close>

definition code9_world :: world where
  "code9_world = quiet_world\<lparr>regs := (\<lambda>_. 0)(0x3D := 0x09)\<rparr>"

text \<open>A chip configured for six rails (code 1) and a framework that rejects rail 3 with errno 12.\<close>

definition reject3_world :: world where
  "reject3_world = quiet_world\<lparr>regs := (\<lambda>_. 0)(0x3D := 0x01), reg_errno := (\<lambda>_. None)(3 := Some 12)\<rparr>"

section \<open>Properties\<close>

subsection \<open>Descriptor table\<close>

lemma buck_n_voltages: "i < 6 \<Longrightarrow> n_voltages (desc (buck i)) = 119"
  by (auto simp: buck_def lp8755_regulators_def lp8755_buck_desc_def
      LP8755_BUCK_LINEAR_OUT_MAX_def nth_Cons')

subsection \<open>Selector to microvolts\<close>

lemma list_voltage_in_range:
  assumes "i < 6" and "unat sel \<le> 118"
  shows "lp8755_list_voltage_buck (buck i) sel = Inr (500000 + 10000 * uint sel)"
proof -
  have nv: "n_voltages (desc (buck i)) = 119"
    using assms(1) by (rule buck_n_voltages)
  have lt: "sel < 119"
    using assms(2) by (simp add: word_less_nat_alt)
  have b: "uint sel \<le> 118"
    unfolding uint_nat using assms(2) by linarith
  have b0: "0 \<le> uint sel"
    by simp
  have u: "uint (500000 + 10000 * sel) = 500000 + 10000 * uint sel"
    using b b0 by (simp add: uint_word_ariths)
  have "sint (500000 + 10000 * sel) = uint (500000 + 10000 * sel)"
    unfolding sint_uint u using b b0 by (subst signed_take_bit_int_eq_self) simp_all
  with u show ?thesis
    using nv lt by (simp add: lp8755_list_voltage_buck_def not_le)
qed

lemma list_voltage_out_of_range:
  assumes "i < 6" and "119 \<le> unat sel"
  shows "lp8755_list_voltage_buck (buck i) sel = Inl EINVAL"
proof -
  have nv: "n_voltages (desc (buck i)) = 119"
    using assms(1) by (rule buck_n_voltages)
  have "119 \<le> sel"
    using assms(2) by (simp add: word_le_nat_alt)
  then show ?thesis
    using nv by (simp add: lp8755_list_voltage_buck_def)
qed

text \<open>
  Claim C5. For every rail and every selector 0..118, the selector-to-microvolt mapping
  returns exactly 500000 + 10000 * selector; for selector 119 and above it returns the
  invalid-selector error (\<open>-EINVAL\<close>).
\<close>

theorem list_voltage_linear:
  "i < 6 \<Longrightarrow>
     (unat sel \<le> 118 \<longrightarrow>
        lp8755_list_voltage_buck (buck i) sel = Inr (500000 + 10000 * uint sel)) \<and>
     (119 \<le> unat sel \<longrightarrow> lp8755_list_voltage_buck (buck i) sel = Inl EINVAL)"
  using list_voltage_in_range list_voltage_out_of_range by blast

theorem list_voltage_linear_witness:
  "(2::nat) < 6 \<and> unat (118::u32) \<le> 118 \<and> 119 \<le> unat (119::u32) \<and>
   lp8755_list_voltage_buck (buck 2) 118 = Inr 1680000 \<and>
   lp8755_list_voltage_buck (buck 2) 119 = Inl EINVAL"
  using list_voltage_linear [of 2 118] list_voltage_linear [of 2 119] by simp

subsection \<open>Ramp rate\<close>

text \<open>
  Claim C3 as stated maps the input 3800 to the hardware code 0x02. In the driver 3800
  is the upper end of the arm \<^verbatim>\<open>case 1901 ... 3800\<close>, whose code is 0x03: on rail 0
  the ramp register (address 0x07) ends up holding 3, not 2.
\<close>

theorem set_ramp_3800_counterexample:
  "ramp_regval 3800 \<noteq> Some 0x02 \<and>
   regs (snd (lp8755_buck_set_ramp (buck 0) 3800 quiet_world)) 0x07 = 0x03"
  by (simp add: lp8755_buck_set_ramp_def ramp_regval_def lp8755_update_bits_def
      regmap_update_bits_def regmap_read_def regmap_write_def quiet_world_def
      rdev_get_id_def buck_def lp8755_regulators_def lp8755_buck_desc_def Let_def)

text \<open>
  Claim C3, amended. For any rail, set_ramp_rate maps the boundary inputs 230, 231, 470,
  471, 3800, 3801, 30000 to the hardware codes 0x07, 0x06, 0x06, 0x05, 0x03, 0x02, 0x00
  respectively (each written by a masked update, mask 0x07, of register 0x07 + id), and
  input 30001 (and any larger value) is rejected with the invalid-ramp error
  (\<open>-EINVAL\<close>) without any register transaction.
\<close>

theorem set_ramp_boundaries:
  "lp8755_buck_set_ramp rd 230 w = lp8755_update_bits (0x07 + rdev_get_id rd) 0x07 0x07 w \<and>
   lp8755_buck_set_ramp rd 231 w = lp8755_update_bits (0x07 + rdev_get_id rd) 0x07 0x06 w \<and>
   lp8755_buck_set_ramp rd 470 w = lp8755_update_bits (0x07 + rdev_get_id rd) 0x07 0x06 w \<and>
   lp8755_buck_set_ramp rd 471 w = lp8755_update_bits (0x07 + rdev_get_id rd) 0x07 0x05 w \<and>
   lp8755_buck_set_ramp rd 3800 w = lp8755_update_bits (0x07 + rdev_get_id rd) 0x07 0x03 w \<and>
   lp8755_buck_set_ramp rd 3801 w = lp8755_update_bits (0x07 + rdev_get_id rd) 0x07 0x02 w \<and>
   lp8755_buck_set_ramp rd 30000 w = lp8755_update_bits (0x07 + rdev_get_id rd) 0x07 0x00 w \<and>
   (30000 < ramp \<longrightarrow> lp8755_buck_set_ramp rd ramp w = (Inl EINVAL, w))"
  by (simp add: lp8755_buck_set_ramp_def ramp_regval_def)

theorem set_ramp_boundaries_witness:
  "(30000::int) < 30001 \<and>
   lp8755_buck_set_ramp (buck 4) 30001 quiet_world = (Inl EINVAL, quiet_world) \<and>
   lp8755_buck_set_ramp (buck 4) 3800 quiet_world = lp8755_update_bits 0x0B 0x07 0x03 quiet_world"
  using set_ramp_boundaries [of "buck 4" quiet_world 30001]
  by (simp add: rdev_get_id_def buck_def lp8755_regulators_def lp8755_buck_desc_def)

subsection \<open>Bus transactions\<close>

lemma bus_quiet_Suc:
  "bus_quiet (Suc n) w = ((case faults w of [] \<Rightarrow> True | f # fs \<Rightarrow> f = None) \<and> bus_quiet n (w\<lparr>faults := tl (faults w)\<rparr>))"
  by (cases "faults w") (auto simp: bus_quiet_def)

lemma read_quiet:
  "bus_quiet (Suc n) w \<Longrightarrow>
   lp8755_read r w = (Inr (ucast (regs w r)), w\<lparr>trace := trace w @ [Reg_read r], faults := tl (faults w)\<rparr>)"
  by (cases "faults w") (auto simp: bus_quiet_def lp8755_read_def regmap_read_def Let_def)

lemma read_success:
  "lp8755_read r w = (Inr v, w1) \<Longrightarrow>
   v = ucast (regs w r) \<and> w1 = w\<lparr>trace := trace w @ [Reg_read r], faults := tl (faults w)\<rparr>"
  by (auto simp: lp8755_read_def regmap_read_def Let_def split: list.splits option.splits)

lemma read_failure:
  "lp8755_read r w = (Inl e, w1) \<Longrightarrow>
   w1 = w\<lparr>trace := trace w @ [Reg_read r], faults := tl (faults w)\<rparr>"
  by (auto simp: lp8755_read_def regmap_read_def Let_def split: list.splits option.splits)

lemma write_success:
  "lp8755_write r v w = (Inr u, w1) \<Longrightarrow>
   w1 = w\<lparr>trace := trace w @ [Reg_write r v], faults := tl (faults w), regs := (regs w)(r := ucast v)\<rparr>"
  by (auto simp: lp8755_write_def regmap_write_def Let_def split: list.splits option.splits)

lemma update_success:
  "lp8755_update_bits r m v w = (Inr u, w1) \<Longrightarrow>
   w1 = w\<lparr>trace := trace w @ [Reg_read r, Reg_write r ((ucast (regs w r) AND NOT m) OR (v AND m))],
          faults := tl (tl (faults w)),
          regs := (regs w)(r := ucast ((ucast (regs w r) AND NOT m) OR (v AND m)))\<rparr>"
  by (auto simp: lp8755_update_bits_def regmap_update_bits_def regmap_read_def regmap_write_def Let_def split: list.splits option.splits)

lemma bit_set_readback:
  "i < 6 \<Longrightarrow> (ucast (ucast ((x AND NOT (push_bit i 1)) OR (push_bit i 1 AND push_bit i 1) :: u32) :: u8) :: u32) AND push_bit i 1 \<noteq> 0"
  apply (simp add: bit_eq_iff bit_simps)
  apply (rule exI[of _ i])
  apply simp
  done

lemma bit_clear_readback:
  "(ucast (ucast ((x AND NOT (push_bit i 1)) OR (0 AND push_bit i 1) :: u32) :: u8) :: u32) AND push_bit i 1 = 0"
  by (auto simp add: bit_eq_iff bit_simps)

lemma bit5_set_readback:
  "(ucast (ucast ((x AND NOT 0x20) OR (0x20 AND 0x20) :: u32) :: u8) :: u32) AND 0x20 \<noteq> 0"
  using bit_set_readback[of 5 x] by simp

lemma bit5_clear_readback:
  "(ucast (ucast ((x AND NOT 0x20) OR (0 AND 0x20) :: u32) :: u8) :: u32) AND 0x20 = 0"
  using bit_clear_readback[of x 5] by simp

lemma buck_id: "i < 6 \<Longrightarrow> rdev_get_id (buck i) = i"
  by (auto simp: rdev_get_id_def buck_def lp8755_regulators_def lp8755_buck_desc_def nth_Cons' )

lemma get_mode_quiet:
  assumes "bus_quiet 2 w"
  shows "fst (lp8755_buck_get_mode rd w) =
     (if ucast (regs w 0x06) AND push_bit (rdev_get_id rd) 0x01 \<noteq> (0::u32) then REGULATOR_MODE_FAST
      else if ucast (regs w (0x08 + rdev_get_id rd)) AND 0x20 \<noteq> (0::u32) then REGULATOR_MODE_IDLE
      else REGULATOR_MODE_NORMAL)"
proof -
  have q2: "bus_quiet (Suc (Suc 0)) w" using assms by (simp add: numeral_2_eq_2)
  then have q1: "bus_quiet (Suc 0) (w\<lparr>trace := trace w @ [Reg_read 0x06], faults := tl (faults w)\<rparr>)"
    by (simp add: bus_quiet_Suc) (simp add: bus_quiet_def)
  show ?thesis
    unfolding lp8755_buck_get_mode_def Let_def
    by (simp add: read_quiet[OF q2] read_quiet[OF q1])
qed

lemma set_mode_fast:
  assumes "lp8755_buck_set_mode rd REGULATOR_MODE_FAST w = (Inr (), w1)"
  shows "regs w1 0x06 = ucast ((ucast (regs w 0x06) AND NOT (push_bit (rdev_get_id rd) 1)) OR (push_bit (rdev_get_id rd) 1 AND push_bit (rdev_get_id rd) (1::u32)))"
  using assms unfolding lp8755_buck_set_mode_def set_mode_switch_def Let_def
  by (auto dest!: update_success)

lemma set_mode_normal:
  assumes "lp8755_buck_set_mode rd REGULATOR_MODE_NORMAL w = (Inr (), w1)" "rdev_get_id rd < 6"
  shows "regs w1 0x06 = ucast ((ucast (regs w 0x06) AND NOT (push_bit (rdev_get_id rd) 1)) OR (0 AND push_bit (rdev_get_id rd) (1::u32)))
       \<and> regs w1 (0x08 + rdev_get_id rd) = ucast ((ucast (regs w (0x08 + rdev_get_id rd)) AND NOT 0x20) OR (0 AND (0x20::u32)))"
  using assms unfolding lp8755_buck_set_mode_def set_mode_switch_def Let_def
  by (auto simp: REGULATOR_MODE_NORMAL_def REGULATOR_MODE_FAST_def dest!: update_success split: prod.splits sum.splits)

lemma set_mode_idle:
  assumes "lp8755_buck_set_mode rd REGULATOR_MODE_IDLE w = (Inr (), w1)" "rdev_get_id rd < 6"
  shows "regs w1 0x06 = ucast ((ucast (regs w 0x06) AND NOT (push_bit (rdev_get_id rd) 1)) OR (0 AND push_bit (rdev_get_id rd) (1::u32)))
       \<and> regs w1 (0x08 + rdev_get_id rd) = ucast ((ucast (regs w (0x08 + rdev_get_id rd)) AND NOT 0x20) OR (0x20 AND (0x20::u32)))"
  using assms unfolding lp8755_buck_set_mode_def set_mode_switch_def Let_def
  by (auto simp: REGULATOR_MODE_NORMAL_def REGULATOR_MODE_FAST_def REGULATOR_MODE_IDLE_def dest!: update_success split: prod.splits sum.splits)

lemmas eval_defs =
  lp8755_buck_set_mode_def set_mode_switch_def lp8755_buck_get_mode_def
  lp8755_update_bits_def regmap_update_bits_def lp8755_read_def lp8755_write_def
  regmap_read_def regmap_write_def quiet_world_def
  rdev_get_id_def buck_def lp8755_regulators_def lp8755_buck_desc_def Let_def
  REGULATOR_MODE_FAST_def REGULATOR_MODE_NORMAL_def REGULATOR_MODE_IDLE_def bus_quiet_def
  LP8755_REG_BUCK0_def LP8755_REG_BUCK1_def LP8755_REG_BUCK2_def LP8755_REG_BUCK3_def
  LP8755_REG_BUCK4_def LP8755_REG_BUCK5_def LP8755_BUCK_EN_M_def LP8755_BUCK_VOUT_M_def
  LP8755_BUCK_LINEAR_OUT_MAX_def

subsection \<open>Operating mode\<close>

text \<open>
  Claim C6. For every rail identifier 0..5 and every mode in {Fast, Normal, Idle}, a
  successful set_mode(mode) followed directly by get_mode() (no register write in
  between, and the two register reads of get_mode complete) returns the same mode.
\<close>

theorem set_get_mode_roundtrip:
  assumes "i < 6"
    and "mode = REGULATOR_MODE_FAST \<or> mode = REGULATOR_MODE_NORMAL \<or> mode = REGULATOR_MODE_IDLE"
    and "lp8755_buck_set_mode (buck i) mode w = (Inr (), w1)"
    and "bus_quiet 2 w1"
  shows "fst (lp8755_buck_get_mode (buck i) w1) = mode"
proof -
  have id: "rdev_get_id (buck i) = i" using assms(1) by (rule buck_id)
  note gm = get_mode_quiet[OF assms(4), of "buck i", unfolded id]
  from assms(2) consider (fast) "mode = REGULATOR_MODE_FAST" | (normal) "mode = REGULATOR_MODE_NORMAL"
    | (idle) "mode = REGULATOR_MODE_IDLE" by blast
  then show ?thesis
  proof cases
    case fast
    from assms(3) have "regs w1 0x06 = ucast ((ucast (regs w 0x06) AND NOT (push_bit i 1)) OR (push_bit i 1 AND push_bit i (1::u32)))"
      unfolding fast by (rule set_mode_fast[of "buck i", unfolded id])
    then show ?thesis unfolding gm fast using bit_set_readback[OF assms(1)] by simp
  next
    case normal
    have "rdev_get_id (buck i) < 6" using id assms(1) by simp
    from set_mode_normal[OF assms(3)[unfolded normal] this, unfolded id]
    show ?thesis unfolding gm normal
      using bit_clear_readback[of _ i] bit5_clear_readback by simp
  next
    case idle
    have "rdev_get_id (buck i) < 6" using id assms(1) by simp
    from set_mode_idle[OF assms(3)[unfolded idle] this, unfolded id]
    show ?thesis unfolding gm idle
      using bit_clear_readback[of _ i] bit5_set_readback by simp
  qed
qed

theorem set_get_mode_roundtrip_witness:
  "(2::nat) < 6 \<and>
   fst (lp8755_buck_set_mode (buck 2) REGULATOR_MODE_IDLE quiet_world) = Inr () \<and>
   bus_quiet 2 (snd (lp8755_buck_set_mode (buck 2) REGULATOR_MODE_IDLE quiet_world)) \<and>
   fst (lp8755_buck_get_mode (buck 2) (snd (lp8755_buck_set_mode (buck 2) REGULATOR_MODE_IDLE quiet_world)))
     = REGULATOR_MODE_IDLE"
proof -
  let ?r = "lp8755_buck_set_mode (buck 2) REGULATOR_MODE_IDLE quiet_world"
  have a: "fst ?r = Inr ()" by (simp add: eval_defs)
  have b: "bus_quiet 2 (snd ?r)" by (simp add: eval_defs)
  have c: "?r = (Inr (), snd ?r)" using a by (simp add: prod_eq_iff)
  have "fst (lp8755_buck_get_mode (buck 2) (snd ?r)) = REGULATOR_MODE_IDLE"
    by (rule set_get_mode_roundtrip[OF _ _ c b]) simp_all
  with a b show ?thesis by simp
qed

subsection \<open>Voltage selection\<close>

lemma ffs_7F: "ffs 0x7F = 1"
  by (simp add: ffs_def upt_conv_Cons)

lemma buck_vsel: "i < 6 \<Longrightarrow> vsel_mask (desc (buck i)) = 0x7F \<and> vsel_reg (desc (buck i)) = enable_reg (desc (buck i)) \<and> enable_mask (desc (buck i)) = 0x80"
  by (auto simp: buck_def lp8755_regulators_def lp8755_buck_desc_def LP8755_BUCK_VOUT_M_def LP8755_BUCK_EN_M_def nth_Cons')

lemma set_voltage_unchecked:
  "i < 6 \<Longrightarrow> lp8755_set_voltage_buck_sel (buck i) sel w = lp8755_update_bits (vsel_reg (desc (buck i))) 0x7F sel w"
  by (simp add: lp8755_set_voltage_buck_sel_def buck_vsel ffs_7F)

lemma update_never_einval: "fst (lp8755_update_bits r m v w) \<noteq> Inl EINVAL"
  by (auto simp: lp8755_update_bits_def regmap_update_bits_def regmap_read_def regmap_write_def Let_def split: list.splits option.splits)

lemma update_trace: "trace (snd (lp8755_update_bits r m v w)) \<noteq> trace w"
  by (auto simp: lp8755_update_bits_def regmap_update_bits_def regmap_read_def regmap_write_def Let_def split: list.splits option.splits)

lemma update_quiet:
  "bus_quiet 2 w \<Longrightarrow> lp8755_update_bits r m v w = (Inr (), 
      w\<lparr>trace := trace w @ [Reg_read r, Reg_write r ((ucast (regs w r) AND NOT m) OR (v AND m))],
          faults := tl (tl (faults w)),
          regs := (regs w)(r := ucast ((ucast (regs w r) AND NOT m) OR (v AND m)))\<rparr>)"
  apply (cases "faults w")
  apply (simp add: lp8755_update_bits_def regmap_update_bits_def regmap_read_def regmap_write_def Let_def bus_quiet_def)
  subgoal for a fs
   apply (cases fs)
  apply (auto simp add: lp8755_update_bits_def regmap_update_bits_def regmap_read_def regmap_write_def Let_def bus_quiet_def numeral_2_eq_2)
  done
  done

lemma m7: "(0x7F::u32) = mask 7" by (simp add: mask_eq_exp_minus_1)

lemma vout_field_gen: "(ucast (ucast ((x AND NOT (mask 7)) OR (sel AND mask 7) :: u32) :: u8) :: u32) AND mask 7 = sel AND mask 7"
  by (auto simp add: bit_eq_iff bit_simps)

lemma enable_bit_kept_gen:
  "7 \<le> k \<Longrightarrow> k < 8 \<Longrightarrow>
   (ucast (ucast ((ucast (b::u8) AND NOT (mask 7)) OR (sel AND mask 7) :: u32) :: u8) :: u32) AND push_bit k 1
     = ucast b AND push_bit k 1"
  by (rule bit_word_eqI) (auto simp add: bit_simps)

lemma enable_bit_kept: "(ucast (ucast ((ucast (b::u8) AND NOT 0x7F) OR (sel AND 0x7F) :: u32) :: u8) :: u32) AND 0x80 = ucast b AND 0x80"
  using enable_bit_kept_gen[of 7 b sel] unfolding m7 by simp

lemma sel_small: "unat (sel::u32) \<le> 118 \<Longrightarrow> sel AND mask 7 = sel"
  by (rule less_mask_eq) (simp add: word_less_nat_alt)

lemma vout_field: "unat sel \<le> 118 \<Longrightarrow> (ucast (ucast ((x AND NOT 0x7F) OR (sel AND 0x7F) :: u32) :: u8) :: u32) AND 0x7F = sel"
  unfolding m7 vout_field_gen by (rule sel_small)

text \<open>
  Claim C4 as stated has set_voltage reject every selector from 119 on with the
  invalid-selector error, without a register transaction. The driver function has no
  range check: selector 119 on rail 0 is accepted and register 0x00 is read and written.
\<close>

theorem set_voltage_119_counterexample:
  "fst (lp8755_set_voltage_buck_sel (buck 0) 119 quiet_world) = Inr () \<and>
   trace (snd (lp8755_set_voltage_buck_sel (buck 0) 119 quiet_world)) = [Reg_read 0, Reg_write 0 119]"
  by (simp add: lp8755_set_voltage_buck_sel_def eval_defs ffs_def upt_conv_Cons)

text \<open>
  Claim C4, amended. For any rail, set_voltage performs no range check of its own: for
  every selector, also 119 and above, it shifts the selector into the voltage-field bit
  position (a shift by 0) and masked-updates, with mask 0x7F, the register that voltage
  and enable share; it never returns the invalid-selector error and always starts a
  register transaction. For selectors 0..118 on a bus that completes the two
  transactions, the voltage field afterwards holds the selector and the enable bit is
  unchanged.
\<close>

theorem set_voltage_masked_update:
  "i < 6 \<Longrightarrow>
   lp8755_set_voltage_buck_sel (buck i) sel w
     = lp8755_update_bits (enable_reg (desc (buck i))) 0x7F (push_bit 0 sel) w \<and>
   vsel_reg (desc (buck i)) = enable_reg (desc (buck i)) \<and>
   fst (lp8755_set_voltage_buck_sel (buck i) sel w) \<noteq> Inl EINVAL \<and>
   trace (snd (lp8755_set_voltage_buck_sel (buck i) sel w)) \<noteq> trace w \<and>
   (unat sel \<le> 118 \<and> bus_quiet 2 w \<longrightarrow>
      fst (lp8755_set_voltage_buck_sel (buck i) sel w) = Inr () \<and>
      ucast (regs (snd (lp8755_set_voltage_buck_sel (buck i) sel w)) (enable_reg (desc (buck i)))) AND 0x7F = sel \<and>
      ucast (regs (snd (lp8755_set_voltage_buck_sel (buck i) sel w)) (enable_reg (desc (buck i)))) AND (0x80::u32)
        = ucast (regs w (enable_reg (desc (buck i)))) AND 0x80)"
proof -
  assume i: "i < 6"
  have eq: "lp8755_set_voltage_buck_sel (buck i) sel w
     = lp8755_update_bits (enable_reg (desc (buck i))) 0x7F sel w"
    using set_voltage_unchecked[OF i] buck_vsel[OF i] by simp
  have r: "vsel_reg (desc (buck i)) = enable_reg (desc (buck i))"
    using buck_vsel[OF i] by simp
  have q: "unat sel \<le> 118 \<and> bus_quiet 2 w \<longrightarrow>
      fst (lp8755_update_bits (enable_reg (desc (buck i))) 0x7F sel w) = Inr () \<and>
      ucast (regs (snd (lp8755_update_bits (enable_reg (desc (buck i))) 0x7F sel w)) (enable_reg (desc (buck i)))) AND 0x7F = sel \<and>
      ucast (regs (snd (lp8755_update_bits (enable_reg (desc (buck i))) 0x7F sel w)) (enable_reg (desc (buck i)))) AND (0x80::u32)
        = ucast (regs w (enable_reg (desc (buck i)))) AND 0x80"
  proof
    assume h: "unat sel \<le> 118 \<and> bus_quiet 2 w"
    then have u: "lp8755_update_bits (enable_reg (desc (buck i))) 0x7F sel w = (Inr (),
      w\<lparr>trace := trace w @ [Reg_read (enable_reg (desc (buck i))),
            Reg_write (enable_reg (desc (buck i))) ((ucast (regs w (enable_reg (desc (buck i)))) AND NOT 0x7F) OR (sel AND 0x7F))],
        faults := tl (tl (faults w)),
        regs := (regs w)(enable_reg (desc (buck i)) :=
            ucast ((ucast (regs w (enable_reg (desc (buck i)))) AND NOT 0x7F) OR (sel AND 0x7F)))\<rparr>)"
      by (simp add: update_quiet)
    show "fst (lp8755_update_bits (enable_reg (desc (buck i))) 0x7F sel w) = Inr () \<and>
      ucast (regs (snd (lp8755_update_bits (enable_reg (desc (buck i))) 0x7F sel w)) (enable_reg (desc (buck i)))) AND 0x7F = sel \<and>
      ucast (regs (snd (lp8755_update_bits (enable_reg (desc (buck i))) 0x7F sel w)) (enable_reg (desc (buck i)))) AND (0x80::u32)
        = ucast (regs w (enable_reg (desc (buck i)))) AND 0x80"
      unfolding u using h vout_field[of sel] enable_bit_kept by simp
  qed
  show ?thesis
    unfolding eq using r q update_never_einval update_trace by simp
qed

theorem set_voltage_masked_update_witness:
  "(3::nat) < 6 \<and> unat (118::u32) \<le> 118 \<and> bus_quiet 2 quiet_world \<and>
   fst (lp8755_set_voltage_buck_sel (buck 3) 118 quiet_world) = Inr () \<and>
   regs (snd (lp8755_set_voltage_buck_sel (buck 3) 118 quiet_world)) 0x01 = 118 \<and>
   fst (lp8755_set_voltage_buck_sel (buck 3) 200 quiet_world) \<noteq> Inl EINVAL"
proof -
  have q: "bus_quiet 2 quiet_world"
    by (simp add: bus_quiet_def quiet_world_def)
  have e: "enable_reg (desc (buck 3)) = 0x01"
    by (simp add: eval_defs)
  have u: "unat (118::u32) \<le> 118"
    by simp
  have t: "lp8755_set_voltage_buck_sel (buck 3) 118 quiet_world
     = lp8755_update_bits (enable_reg (desc (buck 3))) 0x7F (push_bit 0 118) quiet_world \<and>
   vsel_reg (desc (buck 3)) = enable_reg (desc (buck 3)) \<and>
   fst (lp8755_set_voltage_buck_sel (buck 3) 118 quiet_world) \<noteq> Inl EINVAL \<and>
   trace (snd (lp8755_set_voltage_buck_sel (buck 3) 118 quiet_world)) \<noteq> trace quiet_world \<and>
   (unat (118::u32) \<le> 118 \<and> bus_quiet 2 quiet_world \<longrightarrow>
      fst (lp8755_set_voltage_buck_sel (buck 3) 118 quiet_world) = Inr () \<and>
      ucast (regs (snd (lp8755_set_voltage_buck_sel (buck 3) 118 quiet_world)) (enable_reg (desc (buck 3)))) AND 0x7F = (118::u32) \<and>
      ucast (regs (snd (lp8755_set_voltage_buck_sel (buck 3) 118 quiet_world)) (enable_reg (desc (buck 3)))) AND (0x80::u32)
        = ucast (regs quiet_world (enable_reg (desc (buck 3)))) AND 0x80)"
    by (rule set_voltage_masked_update) simp
  from t u q have a: "fst (lp8755_set_voltage_buck_sel (buck 3) 118 quiet_world) = Inr ()"
    by blast
  have b: "regs (snd (lp8755_set_voltage_buck_sel (buck 3) 118 quiet_world)) 0x01 = 118"
    by (simp add: lp8755_set_voltage_buck_sel_def eval_defs ffs_def upt_conv_Cons)
  have i3: "(3::nat) < 6"
    by simp
  from set_voltage_masked_update[OF i3, of 200 quiet_world]
  have c: "fst (lp8755_set_voltage_buck_sel (buck 3) 200 quiet_world) \<noteq> Inl EINVAL"
    by blast
  show ?thesis using a b c q by simp
qed

subsection \<open>Enable query\<close>

text \<open>
  Claim C9 (for any rail, when the register read inside is_enabled fails with a bus
  error, is_enabled returns "not enabled" and does not surface the error) against the
  code: \<^verbatim>\<open>lp8755_is_enabled_buck\<close> ignores the return value of \<^verbatim>\<open>lp8755_read\<close> and
  tests the local variable \<open>reg\<close>, which it never initialises and which a failed read
  leaves unassigned. On rail 0, with the read failing with a bus error, the function
  answers 1 (enabled) when the stack slot holds 0x80 and 0 when it holds 0: the answer
  is not fixed at "not enabled".
\<close>

theorem is_enabled_failed_read_reports_enabled:
  "fst (lp8755_read (enable_reg (desc (buck 0))) (quiet_world\<lparr>faults := [Some 5]\<rparr>)) = Inl (BusError 5) \<and>
   fst (lp8755_is_enabled_buck 0x80 (buck 0) (quiet_world\<lparr>faults := [Some 5]\<rparr>)) = 1 \<and>
   fst (lp8755_is_enabled_buck 0x00 (buck 0) (quiet_world\<lparr>faults := [Some 5]\<rparr>)) = 0"
  by (simp add: eval_defs lp8755_is_enabled_buck_def)

subsection \<open>Interrupt handler\<close>

lemma upt6: "[0..<6] = [0, 1, 2, 3, 4, 5]"
  by (simp add: upt_conv_Cons)

lemma pwr_fault_events_append:
  "pwr_fault_events (xs @ ys) = pwr_fault_events xs @ pwr_fault_events ys"
  by (simp add: pwr_fault_events_def map_filter_def)

lemma pwr_fault_events_Cons:
  "pwr_fault_events (a # xs) =
     (case pwr_fault_target a of None \<Rightarrow> pwr_fault_events xs | Some i \<Rightarrow> i # pwr_fault_events xs)"
  by (simp add: pwr_fault_events_def map_filter_def split: option.splits)

lemma pwr_fault_events_Nil: "pwr_fault_events [] = []"
  by (simp add: pwr_fault_events_def map_filter_def)

lemma pwr_fault_events_map:
  "pwr_fault_events (map (\<lambda>j. Notified j LP8755_EVENT_PWR_FAULT) ys) = ys"
  by (induction ys) (simp_all add: pwr_fault_events_def map_filter_def)

lemma pwr_fault_fold:
  assumes "\<forall>j\<in>set xs. rdev pchip j = None \<or> rdev pchip j = Some (buck j)" "\<forall>j\<in>set xs. j < 6"
  shows "fold (pwr_fault_step pchip flag0) xs w =
     w\<lparr>trace := trace w @ map (\<lambda>j. Notified j LP8755_EVENT_PWR_FAULT)
        (filter (\<lambda>j. flag0 AND push_bit j 0x4 \<noteq> 0 \<and> irqmask pchip AND push_bit j 0x04 \<noteq> 0 \<and> rdev pchip j \<noteq> None) xs)\<rparr>"
  using assms
proof (induction xs arbitrary: w)
  case Nil
  then show ?case by simp
next
  case (Cons x xs)
  then have x: "rdev pchip x = None \<or> rdev pchip x = Some (buck x)" and x6: "x < 6" by simp_all
  have step: "pwr_fault_step pchip flag0 x w =
    (if flag0 AND push_bit x 0x4 \<noteq> 0 \<and> irqmask pchip AND push_bit x 0x04 \<noteq> 0 \<and> rdev pchip x \<noteq> None
     then w\<lparr>trace := trace w @ [Notified x LP8755_EVENT_PWR_FAULT]\<rparr> else w)"
    using x buck_id[OF x6]
    by (auto simp: pwr_fault_step_def regulator_notifier_call_chain_def)
  show ?case
    using Cons.IH[of "pwr_fault_step pchip flag0 x w"] Cons.prems
    by (simp add: step)
qed

lemma bit_test: "i < 6 \<Longrightarrow> (x AND push_bit i 0x4 \<noteq> (0::u32)) = bit x (2 + i)"
proof -
  assume "i < 6"
  have "push_bit i (0x4::u32) = push_bit (2 + i) 1"
    by (simp add: push_bit_eq_mult power_add)
  then show ?thesis
    by (simp only: bit_iff_and_push_bit_not_eq_0)
qed

lemma write_quiet:
  "bus_quiet (Suc n) w \<Longrightarrow>
   lp8755_write r v w = (Inr (), w\<lparr>trace := trace w @ [Reg_write r v], faults := tl (faults w),
                                   regs := (regs w)(r := ucast v)\<rparr>)"
  by (cases "faults w") (auto simp: bus_quiet_def lp8755_write_def regmap_write_def Let_def)

lemma read_any:
  "lp8755_read r w = (x, w1) \<Longrightarrow> trace w1 = trace w @ [Reg_read r] \<and> regs w1 = regs w"
  by (auto simp: lp8755_read_def regmap_read_def Let_def split: list.splits option.splits)

lemma write_any:
  "lp8755_write r v w = (x, w1) \<Longrightarrow>
   trace w1 = trace w @ [Reg_write r v] \<and> (\<forall>a. a \<noteq> r \<longrightarrow> regs w1 a = regs w a)"
  by (auto simp: lp8755_write_def regmap_write_def Let_def split: list.splits option.splits)

lemma notify_fold:
  "ev \<noteq> LP8755_EVENT_PWR_FAULT \<Longrightarrow>
   \<exists>ext. trace (fold (notify_step pchip ev) xs w) = trace w @ ext \<and> pwr_fault_events ext = [] \<and>
         regs (fold (notify_step pchip ev) xs w) = regs w"
proof (induction xs arbitrary: w)
  case Nil
  then show ?case by (simp add: pwr_fault_events_def map_filter_def)
next
  case (Cons x xs)
  obtain e1 where e1: "trace (notify_step pchip ev x w) = trace w @ e1" "pwr_fault_events e1 = []"
    "regs (notify_step pchip ev x w) = regs w"
    using Cons.prems
    by (cases ev; cases "rdev pchip x")
       (auto simp: notify_step_def regulator_notifier_call_chain_def pwr_fault_events_def map_filter_def)
  from Cons.IH[OF Cons.prems, of "notify_step pchip ev x w"]
  obtain e2 where e2: "trace (fold (notify_step pchip ev) xs (notify_step pchip ev x w))
       = trace (notify_step pchip ev x w) @ e2" "pwr_fault_events e2 = []"
    "regs (fold (notify_step pchip ev) xs (notify_step pchip ev x w)) = regs (notify_step pchip ev x w)"
    by blast
  show ?case
    by (rule exI[of _ "e1 @ e2"]) (simp add: e1 e2 pwr_fault_events_append)
qed

lemma irq_flag1_ext:
  "\<exists>ext. trace (snd (irq_flag1 pchip w)) = trace w @ ext \<and> pwr_fault_events ext = [] \<and>
         regs (snd (irq_flag1 pchip w)) 0x0D = regs w 0x0D"
proof -
  obtain x w1 where r: "lp8755_read 0x0E w = (x, w1)" by (cases "lp8755_read 0x0E w")
  note r1 = read_any[OF r]
  have nil: "pwr_fault_events [Reg_read 0x0E] = []" "pwr_fault_events [Reg_read 0x0E, Reg_write 0x0E 0] = []"
    by (simp_all add: pwr_fault_events_def map_filter_def)
  show ?thesis
  proof (cases x)
    case (Inl e)
    then show ?thesis using r r1 nil by (simp add: irq_flag1_def)
  next
    case (Inr flag1)
    obtain y w2 where wr: "lp8755_write 0x0E 0x00 w1 = (y, w2)" by (cases "lp8755_write 0x0E 0x00 w1")
    note w2 = write_any[OF wr]
    have t2: "trace w2 = trace w @ [Reg_read 0x0E, Reg_write 0x0E 0]" using r1 w2 by simp
    have g2: "regs w2 0x0D = regs w 0x0D" using r1 w2 by simp
    show ?thesis
    proof (cases y)
      case (Inl e)
      then show ?thesis using r wr Inr t2 g2 nil by (simp add: irq_flag1_def)
    next
      case (Inr u)
      define w3 where "w3 = (if flag1 AND 0x01 \<noteq> 0 \<and> irqmask pchip AND 0x01 \<noteq> 0
                         then fold (notify_step pchip LP8755_EVENT_OCP) [0..<LP8755_BUCK_MAX] w2
                         else w2)"
      define w4 where "w4 = (if flag1 AND 0x02 \<noteq> 0 \<and> irqmask pchip AND 0x02 \<noteq> 0
                         then fold (notify_step pchip LP8755_EVENT_OVP) [0..<LP8755_BUCK_MAX] w3
                         else w3)"
      have res: "snd (irq_flag1 pchip w) = w4"
        using r wr \<open>x = Inr flag1\<close> Inr by (simp add: irq_flag1_def w3_def w4_def Let_def)
      obtain e3 where e3: "trace w3 = trace w2 @ e3" "pwr_fault_events e3 = []" "regs w3 = regs w2"
        using notify_fold[of LP8755_EVENT_OCP pchip "[0..<LP8755_BUCK_MAX]" w2]
        by (cases "flag1 AND 0x01 \<noteq> 0 \<and> irqmask pchip AND 0x01 \<noteq> 0")
           (auto simp: w3_def pwr_fault_events_def map_filter_def)
      obtain e4 where e4: "trace w4 = trace w3 @ e4" "pwr_fault_events e4 = []" "regs w4 = regs w3"
        using notify_fold[of LP8755_EVENT_OVP pchip "[0..<LP8755_BUCK_MAX]" w3]
        by (cases "flag1 AND 0x02 \<noteq> 0 \<and> irqmask pchip AND 0x02 \<noteq> 0")
           (auto simp: w4_def pwr_fault_events_def map_filter_def)
      show ?thesis
        unfolding res
        by (rule exI[of _ "[Reg_read 0x0E, Reg_write 0x0E 0] @ e3 @ e4"])
           (simp add: e3 e4 t2 g2 pwr_fault_events_append pwr_fault_events_Cons)
    qed
  qed
qed

lemma irq_handler_snd:
  "snd (lp8755_irq_handler pchip w) =
     (case irq_flag0 pchip w of (Inl e, w1) \<Rightarrow> w1 | (Inr u, w1) \<Rightarrow> snd (irq_flag1 pchip w1))"
  by (auto simp: lp8755_irq_handler_def split: prod.splits sum.splits)

lemma irq_flag0_quiet:
  assumes "bus_quiet 2 w"
  shows "irq_flag0 pchip w = (Inr (), fold (pwr_fault_step pchip (ucast (regs w 0x0D))) [0..<6]
      (w\<lparr>trace := trace w @ [Reg_read 0x0D, Reg_write 0x0D 0x00], faults := tl (tl (faults w)),
         regs := (regs w)(0x0D := 0)\<rparr>))"
proof -
  have q2: "bus_quiet (Suc (Suc 0)) w" using assms by (simp add: numeral_2_eq_2)
  then have q1: "bus_quiet (Suc 0) (w\<lparr>trace := trace w @ [Reg_read 0x0D], faults := tl (faults w)\<rparr>)"
    by (simp add: bus_quiet_Suc) (simp add: bus_quiet_def)
  show ?thesis
    unfolding irq_flag0_def
    by (simp add: read_quiet[OF q2] write_quiet[OF q1])
qed

lemma slots_okD: "slots_ok pchip \<Longrightarrow> \<forall>j\<in>set [0..<6]. rdev pchip j = None \<or> rdev pchip j = Some (buck j)"
  by (simp add: slots_ok_def list_all_iff)

lemma irq_pwr_fault_events:
  assumes "bus_quiet 2 w" and "slots_ok pchip"
  shows "pwr_fault_events (trace (snd (lp8755_irq_handler pchip w))) =
     pwr_fault_events (trace w) @
     filter (\<lambda>i. bit (ucast (regs w 0x0D) :: u32) (2 + i) \<and> bit (irqmask pchip) (2 + i) \<and> rdev pchip i \<noteq> None) [0..<6]"
proof -
  let ?flag0 = "ucast (regs w 0x0D) :: u32"
  let ?w2 = "w\<lparr>trace := trace w @ [Reg_read 0x0D, Reg_write 0x0D 0x00], faults := tl (tl (faults w)),
         regs := (regs w)(0x0D := 0)\<rparr>"
  let ?sel = "filter (\<lambda>j. ?flag0 AND push_bit j 0x4 \<noteq> 0 \<and> irqmask pchip AND push_bit j 0x04 \<noteq> 0 \<and> rdev pchip j \<noteq> None) [0..<6]"
  let ?w3 = "?w2\<lparr>trace := trace ?w2 @ map (\<lambda>j. Notified j LP8755_EVENT_PWR_FAULT) ?sel\<rparr>"
  have f0: "irq_flag0 pchip w = (Inr (), ?w3)"
    unfolding irq_flag0_quiet[OF assms(1)]
    by (subst pwr_fault_fold) (use slots_okD[OF assms(2)] in simp_all)
  obtain ext where ext: "trace (snd (irq_flag1 pchip ?w3)) = trace ?w3 @ ext" "pwr_fault_events ext = []"
    using irq_flag1_ext[of pchip ?w3] by blast
  have sel: "?sel = filter (\<lambda>i. bit ?flag0 (2 + i) \<and> bit (irqmask pchip) (2 + i) \<and> rdev pchip i \<noteq> None) [0..<6]"
    by (rule filter_cong) (simp_all add: bit_test)
  have hs: "snd (lp8755_irq_handler pchip w) = snd (irq_flag1 pchip ?w3)"
    unfolding irq_handler_snd f0 by (simp only: prod.case sum.case)
  have t3: "trace ?w3 = trace w @ [Reg_read 0x0D, Reg_write 0x0D 0x00] @ map (\<lambda>j. Notified j LP8755_EVENT_PWR_FAULT) ?sel"
    by simp
  have "pwr_fault_events (trace (snd (lp8755_irq_handler pchip w))) = pwr_fault_events (trace ?w3 @ ext)"
    by (simp only: hs ext(1))
  also have "\<dots> = pwr_fault_events (trace w) @ ?sel"
    unfolding t3
    by (simp add: ext(2) pwr_fault_events_append pwr_fault_events_Cons pwr_fault_events_Nil pwr_fault_events_map)
  finally show ?thesis unfolding sel .
qed

lemma low_bits_no_fault:
  assumes "(x::u32) AND 0xFC = 0" and "i < 6"
  shows "\<not> bit x (2 + i)"
proof
  assume b: "bit x (2 + i)"
  from assms(2) have "i = 0 \<or> i = 1 \<or> i = 2 \<or> i = 3 \<or> i = 4 \<or> i = 5" by arith
  then have "bit (0xFC::u32) (2 + i)" by (elim disjE) simp_all
  with b have "bit (x AND 0xFC) (2 + i)" by (simp add: bit_and_iff)
  with assms(1) show False by simp
qed

lemma int_config_caches_mask:
  assumes "irq pchip \<noteq> 0" and "bus_quiet 1 w"
  shows "irqmask (fst (snd (lp8755_int_config pchip w))) = ucast (regs w 0x0F)"
proof -
  have q: "bus_quiet (Suc 0) w" using assms(2) by simp
  show ?thesis
    unfolding lp8755_int_config_def read_quiet[OF q]
    using assms(1) by (cases "irq_errno w") (simp_all add: request_threaded_irq_def Let_def)
qed

text \<open>
  Claim C10. In the interrupt handler, once status register A (0x0D) has been read and
  acknowledged, the power-fault bit of rail i (0..5) is bit 2 + i of the value read,
  tested against the same bit of the cached interrupt mask: rail i gets a power-fault
  event, exactly one, if and only if that bit is set in the value read and in the mask and
  rail i has a live handle. Bits 0 and 1 of status register A never produce such an event.
\<close>

theorem irq_pwr_fault_bits:
  assumes "bus_quiet 2 w" and "slots_ok pchip"
  shows "pwr_fault_events (trace (snd (lp8755_irq_handler pchip w))) =
     pwr_fault_events (trace w) @
     filter (\<lambda>i. bit (ucast (regs w 0x0D) :: u32) (2 + i) \<and> bit (irqmask pchip) (2 + i) \<and>
                  rdev pchip i \<noteq> None) [0..<6] \<and>
   ((ucast (regs w 0x0D) :: u32) AND 0xFC = 0 \<longrightarrow>
      pwr_fault_events (trace (snd (lp8755_irq_handler pchip w))) = pwr_fault_events (trace w))"
proof -
  note ev = irq_pwr_fault_events[OF assms]
  have "pwr_fault_events (trace (snd (lp8755_irq_handler pchip w))) = pwr_fault_events (trace w)"
    if z: "(ucast (regs w 0x0D) :: u32) AND 0xFC = 0"
  proof -
    have "filter (\<lambda>i. bit (ucast (regs w 0x0D) :: u32) (2 + i) \<and> bit (irqmask pchip) (2 + i) \<and>
                  rdev pchip i \<noteq> None) [0..<6] = []"
      using low_bits_no_fault[OF z] by (simp add: filter_empty_conv)
    with ev show ?thesis by simp
  qed
  with ev show ?thesis by blast
qed

text \<open>
  Claim C7. When the handler reads status register A with only rail 2's power-fault bit
  (0x10) set and acknowledges it, that bit is unmasked in the cached interrupt mask and
  rail 2 holds a live handle, then exactly one power-fault event is emitted, to rail 2
  only; the write of 0x00 to status register A comes right after the read and before
  that event, hence before any event, and the register ends up 0x00.
\<close>

theorem irq_rail2_scenario:
  assumes "bus_quiet 2 w"
    and "regs w 0x0D = 0x10"
    and "irqmask pchip AND 0x10 \<noteq> 0"
    and "rdev pchip 2 = Some (buck 2)"
  shows "pwr_fault_events (trace (snd (lp8755_irq_handler pchip w))) = pwr_fault_events (trace w) @ [2] \<and>
    take (length (trace w) + 3) (trace (snd (lp8755_irq_handler pchip w)))
      = trace w @ [Reg_read 0x0D, Reg_write 0x0D 0x00, Notified 2 LP8755_EVENT_PWR_FAULT] \<and>
    regs (snd (lp8755_irq_handler pchip w)) 0x0D = 0x00"
proof -
  let ?w2 = "w\<lparr>trace := trace w @ [Reg_read 0x0D, Reg_write 0x0D 0x00], faults := tl (tl (faults w)),
         regs := (regs w)(0x0D := 0)\<rparr>"
  let ?w3 = "?w2\<lparr>trace := trace ?w2 @ [Notified 2 LP8755_EVENT_PWR_FAULT]\<rparr>"
  have id2: "rdev_get_id (buck 2) = 2" by (rule buck_id) simp
  have f0: "irq_flag0 pchip w = (Inr (), ?w3)"
    unfolding irq_flag0_quiet[OF assms(1)] assms(2) upt6
    using assms(3,4) by (simp add: pwr_fault_step_def regulator_notifier_call_chain_def id2)
  obtain ext where ext: "trace (snd (irq_flag1 pchip ?w3)) = trace ?w3 @ ext" "pwr_fault_events ext = []"
    "regs (snd (irq_flag1 pchip ?w3)) 0x0D = regs ?w3 0x0D"
    using irq_flag1_ext[of pchip ?w3] by blast
  have hs: "snd (lp8755_irq_handler pchip w) = snd (irq_flag1 pchip ?w3)"
    unfolding irq_handler_snd f0 by (simp only: prod.case sum.case)
  have t3: "trace ?w3 = trace w @ [Reg_read 0x0D, Reg_write 0x0D 0x00, Notified 2 LP8755_EVENT_PWR_FAULT]"
    by simp
  have tr: "trace (snd (lp8755_irq_handler pchip w))
      = (trace w @ [Reg_read 0x0D, Reg_write 0x0D 0x00, Notified 2 LP8755_EVENT_PWR_FAULT]) @ ext"
    by (simp only: hs ext(1) t3)
  have a: "pwr_fault_events (trace (snd (lp8755_irq_handler pchip w))) = pwr_fault_events (trace w) @ [2]"
    unfolding tr
    by (simp add: ext(2) pwr_fault_events_append pwr_fault_events_Cons pwr_fault_events_Nil)
  have b: "take (length (trace w) + 3) (trace (snd (lp8755_irq_handler pchip w)))
      = trace w @ [Reg_read 0x0D, Reg_write 0x0D 0x00, Notified 2 LP8755_EVENT_PWR_FAULT]"
    unfolding tr by simp
  have c: "regs (snd (lp8755_irq_handler pchip w)) 0x0D = 0x00"
    unfolding hs ext(3) by simp
  from a b c show ?thesis by blast
qed

theorem irq_rail2_scenario_witness:
  "bus_quiet 2 rail2_world \<and> regs rail2_world 0x0D = 0x10 \<and> irqmask rail2_chip AND 0x10 \<noteq> 0 \<and>
   rdev rail2_chip 2 = Some (buck 2) \<and>
   pwr_fault_events (trace (snd (lp8755_irq_handler rail2_chip rail2_world))) = [2] \<and>
   take 3 (trace (snd (lp8755_irq_handler rail2_chip rail2_world)))
      = [Reg_read 0x0D, Reg_write 0x0D 0x00, Notified 2 LP8755_EVENT_PWR_FAULT]"
proof -
  have h1: "bus_quiet 2 rail2_world"
    by (simp add: rail2_world_def quiet_world_def bus_quiet_def)
  have h2: "regs rail2_world 0x0D = 0x10"
    by (simp add: rail2_world_def quiet_world_def)
  have h3: "irqmask rail2_chip AND 0x10 \<noteq> 0"
    by (simp add: rail2_chip_def zeroed_chip_def)
  have h4: "rdev rail2_chip 2 = Some (buck 2)"
    by (simp add: rail2_chip_def zeroed_chip_def)
  have t: "trace rail2_world = []"
    by (simp add: rail2_world_def quiet_world_def)
  from irq_rail2_scenario[OF h1 h2 h3 h4] h1 h2 h3 h4 show ?thesis
    by (simp add: t pwr_fault_events_Nil)
qed

theorem irq_pwr_fault_bits_witness:
  "bus_quiet 2 (rail2_world\<lparr>regs := (\<lambda>_. 0)(0x0D := 0x53)\<rparr>) \<and> slots_ok rail2_chip \<and>
   pwr_fault_events (trace (snd (lp8755_irq_handler rail2_chip (rail2_world\<lparr>regs := (\<lambda>_. 0)(0x0D := 0x53)\<rparr>)))) = [2]"
proof -
  have h1: "bus_quiet 2 (rail2_world\<lparr>regs := (\<lambda>_. 0)(0x0D := 0x53)\<rparr>)"
    by (simp add: rail2_world_def quiet_world_def bus_quiet_def)
  have h2: "slots_ok rail2_chip"
    by (simp add: slots_ok_def rail2_chip_def zeroed_chip_def upt6)
  have t: "trace (rail2_world\<lparr>regs := (\<lambda>_. 0)(0x0D := 0x53)\<rparr>) = []"
    by (simp add: rail2_world_def quiet_world_def)
  from irq_pwr_fault_bits[OF h1 h2] h1 h2 show ?thesis
    by (simp add: t pwr_fault_events_Nil upt6 rail2_chip_def zeroed_chip_def)
qed

subsection \<open>Bring-up\<close>

lemma framework_calls_append:
  "framework_calls (xs @ ys) = framework_calls xs @ framework_calls ys"
  by (simp add: framework_calls_def)

lemma update_frame:
  "reg_errno (snd (lp8755_update_bits r m v w)) = reg_errno w \<and>
   irq_errno (snd (lp8755_update_bits r m v w)) = irq_errno w \<and>
   framework_calls (trace (snd (lp8755_update_bits r m v w))) = framework_calls (trace w)"
  by (auto simp: lp8755_update_bits_def regmap_update_bits_def regmap_read_def regmap_write_def
      Let_def framework_calls_def split: list.splits option.splits)

lemma set_ramp_frame:
  "reg_errno (snd (lp8755_buck_set_ramp rd r w)) = reg_errno w \<and>
   irq_errno (snd (lp8755_buck_set_ramp rd r w)) = irq_errno w \<and>
   framework_calls (trace (snd (lp8755_buck_set_ramp rd r w))) = framework_calls (trace w)"
  by (cases "ramp_regval r") (simp_all add: lp8755_buck_set_ramp_def update_frame)

lemma mphase_buck_at_1:
  "mphase_buck_at 1 = Some \<lparr>nreg = 6, buck_num = [0, 1, 2, 3, 4, 5]\<rparr>"
  by (simp add: mphase_buck_at_def MPHASE_CONF_MAX_def mphase_buck_def
      BUCK0_def BUCK1_def BUCK2_def BUCK3_def BUCK4_def BUCK5_def)

lemma regulators_id: "bn < 6 \<Longrightarrow> desc_id (lp8755_regulators ! bn) = bn"
  using buck_id[of bn] by (simp add: rdev_get_id_def buck_def)

lemma loop_step_ok:
  assumes "buck_num mp ! icnt = bn" and "bn < 6" and "reg_errno w bn = None"
  shows "\<exists>c2 w2. regulator_init_loop mp (icnt # rest) c w = regulator_init_loop mp rest c2 w2 \<and>
           rdev c2 = (rdev c)(bn := Some (buck bn)) \<and>
           reg_errno w2 = reg_errno w \<and>
           framework_calls (trace w2) = framework_calls (trace w) @ [Registered bn]"
proof -
  define c1 where "c1 = (if buck_data (pdata c) bn = None
                then c\<lparr>pdata := (pdata c)\<lparr>buck_data := (buck_data (pdata c))(bn := Some (lp8755_reg_default ! bn))\<rparr>\<rparr>
                else c)"
  define c2 where "c2 = c1\<lparr>rdev := (rdev c1)(bn := Some (buck bn))\<rparr>"
  define w2 where "w2 = snd (lp8755_buck_set_ramp (buck bn) (ramp_us (pdata c2) bn)
                              (w\<lparr>trace := trace w @ [Registered bn]\<rparr>))"
  have r1: "rdev c1 = rdev c" by (simp add: c1_def)
  have reg: "regulator_register (lp8755_regulators ! bn) (buck_data (pdata c1) bn) w
      = (Inr (buck bn), w\<lparr>trace := trace w @ [Registered bn]\<rparr>)"
    using assms(2,3) by (simp add: regulator_register_def regulators_id buck_def)
  have "regulator_init_loop mp (icnt # rest) c w = regulator_init_loop mp rest c2 w2"
    by (simp add: assms(1) Let_def reg c1_def[symmetric] c2_def[symmetric] w2_def[symmetric])
  moreover have "rdev c2 = (rdev c)(bn := Some (buck bn))"
    by (simp add: c2_def r1)
  moreover have "reg_errno w2 = reg_errno w"
    by (simp add: w2_def set_ramp_frame)
  moreover have "framework_calls (trace w2) = framework_calls (trace w) @ [Registered bn]"
    by (simp add: w2_def set_ramp_frame framework_calls_append) (simp add: framework_calls_def)
  ultimately show ?thesis by blast
qed

lemma loop_step_rejected:
  assumes "buck_num mp ! icnt = bn" and "bn < 6" and "reg_errno w bn = Some n"
  shows "\<exists>c1 w1. regulator_init_loop mp (icnt # rest) c w = (Inl (RegistrationFailure n), c1, w1) \<and>
           rdev c1 = (rdev c)(bn := None) \<and>
           framework_calls (trace w1) = framework_calls (trace w) @ [Register_rejected bn]"
proof -
  define c1 where "c1 = (if buck_data (pdata c) bn = None
                then c\<lparr>pdata := (pdata c)\<lparr>buck_data := (buck_data (pdata c))(bn := Some (lp8755_reg_default ! bn))\<rparr>\<rparr>
                else c)"
  have r1: "rdev c1 = rdev c" by (simp add: c1_def)
  have reg: "regulator_register (lp8755_regulators ! bn) (buck_data (pdata c1) bn) w
      = (Inl (RegistrationFailure n), w\<lparr>trace := trace w @ [Register_rejected bn]\<rparr>)"
    using assms(2,3) by (simp add: regulator_register_def regulators_id)
  have "regulator_init_loop mp (icnt # rest) c w
      = (Inl (RegistrationFailure n), c1\<lparr>rdev := (rdev c1)(bn := None)\<rparr>, w\<lparr>trace := trace w @ [Register_rejected bn]\<rparr>)"
    by (simp add: assms(1) Let_def reg c1_def[symmetric])
  moreover have "rdev (c1\<lparr>rdev := (rdev c1)(bn := None)\<rparr>) = (rdev c)(bn := None)"
    by (simp add: r1)
  moreover have "framework_calls (trace (w\<lparr>trace := trace w @ [Register_rejected bn]\<rparr>))
      = framework_calls (trace w) @ [Register_rejected bn]"
    by (simp add: framework_calls_def)
  ultimately show ?thesis by blast
qed

lemma unregister_slots_Cons:
  "unregister_slots c (x # xs) w = unregister_slots c xs (regulator_unregister (rdev c x) w)"
  by (simp add: unregister_slots_def)

lemma unregister_slots_trace:
  "trace (unregister_slots c icnts w) =
     trace w @ map (\<lambda>r. Unregistered (rdev_get_id r)) (List.map_filter (rdev c) icnts)"
proof (induction icnts arbitrary: w)
  case Nil
  then show ?case by (simp add: map_filter_def unregister_slots_def)
next
  case (Cons x xs)
  show ?case
    unfolding unregister_slots_Cons Cons.IH
    by (cases "rdev c x") (simp_all add: regulator_unregister_def map_filter_def)
qed

lemma slots_ok_iff:
  "slots_ok c \<longleftrightarrow> (\<forall>j<6. rdev c j = None \<or> rdev c j = Some (buck j))"
  by (auto simp: slots_ok_def list_all_iff)

lemma mphase_buck_entries:
  assumes "mphase_buck_at code = Some mp"
  shows "nreg mp \<le> 6 \<and> length (buck_num mp) = 6 \<and> (\<forall>b\<in>set (buck_num mp). b < 6)"
proof -
  from assms have r: "0 \<le> code" "code < 9" and mp: "mp = mphase_buck ! nat code"
    by (auto simp: mphase_buck_at_def MPHASE_CONF_MAX_def split: if_splits)
  from r have "nat code \<in> {0, 1, 2, 3, 4, 5, 6, 7, 8}"
    by auto
  then show ?thesis
    unfolding mp
    by (auto simp: mphase_buck_def BUCK0_def BUCK1_def BUCK2_def BUCK3_def BUCK4_def BUCK5_def)
qed

lemma regulator_init_loop_slots:
  assumes "\<forall>j<6. rdev c j = None \<or> rdev c j = Some (buck j)"
    and "\<forall>icnt\<in>set xs. buck_num mp ! icnt < 6"
    and "regulator_init_loop mp xs c w = (r, c1, w1)"
  shows "\<forall>j<6. rdev c1 j = None \<or> rdev c1 j = Some (buck j)"
  using assms
proof (induction xs arbitrary: c w)
  case Nil
  then show ?case by simp
next
  case (Cons icnt rest)
  let ?bn = "buck_num mp ! icnt"
  have bn: "?bn < 6" using Cons.prems(2) by simp
  show ?case
  proof (cases "reg_errno w ?bn")
    case None
    obtain c2 w2 where s: "regulator_init_loop mp (icnt # rest) c w = regulator_init_loop mp rest c2 w2"
      "rdev c2 = (rdev c)(?bn := Some (buck ?bn))"
      using loop_step_ok[OF refl bn None, where rest = rest and c = c] by blast
    have "\<forall>j<6. rdev c2 j = None \<or> rdev c2 j = Some (buck j)"
      using Cons.prems(1) by (simp add: s(2))
    moreover have "regulator_init_loop mp rest c2 w2 = (r, c1, w1)"
      using Cons.prems(3) s(1) by simp
    ultimately show ?thesis
      using Cons.IH[of c2 w2] Cons.prems(2) by simp
  next
    case (Some n)
    obtain c2 w2 where s: "regulator_init_loop mp (icnt # rest) c w = (Inl (RegistrationFailure n), c2, w2)"
      "rdev c2 = (rdev c)(?bn := None)"
      using loop_step_rejected[OF refl bn Some, where rest = rest and c = c] by blast
    have "c1 = c2" using Cons.prems(3) s(1) by simp
    then show ?thesis
      using Cons.prems(1) by (simp add: s(2))
  qed
qed

lemma regulator_init_slots_ok:
  assumes "slots_ok pchip" and "lp8755_regulator_init pchip w = Some (r, c1, w1)"
  shows "slots_ok c1"
proof -
  obtain mp where mp: "mphase_buck_at (mphase pchip) = Some mp"
    using assms(2) by (auto simp: lp8755_regulator_init_def split: option.splits)
  obtain r0 w0 where l: "regulator_init_loop mp [0..<nreg mp] pchip w = (r0, c1, w0)"
    using assms(2) mp by (auto simp: lp8755_regulator_init_def split: prod.splits sum.splits)
  have "\<forall>icnt\<in>set [0..<nreg mp]. buck_num mp ! icnt < 6"
    using mphase_buck_entries[OF mp] by (auto simp: all_set_conv_all_nth)
  from regulator_init_loop_slots[OF assms(1)[unfolded slots_ok_iff] this l]
  show ?thesis by (simp add: slots_ok_iff)
qed

lemma regulator_init_rollback:
  assumes "mphase pchip = 1"
    and "rdev pchip = (\<lambda>_. None)"
    and "reg_errno w 0 = None" and "reg_errno w 1 = None" and "reg_errno w 2 = None"
    and "reg_errno w 3 = Some n"
  shows "(case lp8755_regulator_init pchip w of
            None \<Rightarrow> False
          | Some (r, c1, w1) \<Rightarrow>
              r = Inl (RegistrationFailure n) \<and>
              framework_calls (trace w1) = framework_calls (trace w) @
                [Registered 0, Registered 1, Registered 2, Register_rejected 3,
                 Unregistered 0, Unregistered 1, Unregistered 2])"
proof -
  let ?mp = "\<lparr>nreg = 6, buck_num = [0, 1, 2, 3, 4, 5]\<rparr>"
  obtain ca wa where a: "regulator_init_loop ?mp [0, 1, 2, 3, 4, 5] pchip w = regulator_init_loop ?mp [1, 2, 3, 4, 5] ca wa"
    "rdev ca = (rdev pchip)(0 := Some (buck 0))" "reg_errno wa = reg_errno w"
    "framework_calls (trace wa) = framework_calls (trace w) @ [Registered 0]"
    using loop_step_ok[of ?mp 0 0 w "[1, 2, 3, 4, 5]" pchip] assms(3) by auto
  obtain cb wb where b: "regulator_init_loop ?mp [1, 2, 3, 4, 5] ca wa = regulator_init_loop ?mp [2, 3, 4, 5] cb wb"
    "rdev cb = (rdev ca)(1 := Some (buck 1))" "reg_errno wb = reg_errno wa"
    "framework_calls (trace wb) = framework_calls (trace wa) @ [Registered 1]"
    using loop_step_ok[of ?mp 1 1 wa "[2, 3, 4, 5]" ca] assms(4) a(3) by auto
  obtain cc wc where c: "regulator_init_loop ?mp [2, 3, 4, 5] cb wb = regulator_init_loop ?mp [3, 4, 5] cc wc"
    "rdev cc = (rdev cb)(2 := Some (buck 2))" "reg_errno wc = reg_errno wb"
    "framework_calls (trace wc) = framework_calls (trace wb) @ [Registered 2]"
    using loop_step_ok[of ?mp 2 2 wb "[3, 4, 5]" cb] assms(5) a(3) b(3) by auto
  obtain cd wd where d: "regulator_init_loop ?mp [3, 4, 5] cc wc = (Inl (RegistrationFailure n), cd, wd)"
    "rdev cd = (rdev cc)(3 := None)"
    "framework_calls (trace wd) = framework_calls (trace wc) @ [Register_rejected 3]"
    using loop_step_rejected[of ?mp 3 3 wc n "[4, 5]" cc] assms(6) a(3) b(3) c(3) by auto
  have loop: "regulator_init_loop ?mp [0..<nreg ?mp] pchip w = (Inl (RegistrationFailure n), cd, wd)"
    by (simp only: lp8755_mphase.select_convs upt6 a(1) b(1) c(1) d(1))
  have slots: "List.map_filter (rdev cd) [0, 1, 2, 3, 4, 5] = [buck 0, buck 1, buck 2]"
    by (simp add: d(2) c(2) b(2) a(2) assms(2) map_filter_def)
  have un: "framework_calls (trace (unregister_slots cd [0..<6] wd))
      = framework_calls (trace wd) @ [Unregistered 0, Unregistered 1, Unregistered 2]"
    unfolding unregister_slots_trace upt6 slots
    by (simp add: framework_calls_append buck_id) (simp add: framework_calls_def)
  have ri: "lp8755_regulator_init pchip w
      = Some (Inl (RegistrationFailure n), cd, unregister_slots cd [0..<6] wd)"
    unfolding lp8755_regulator_init_def assms(1) mphase_buck_at_1 LP8755_BUCK_MAX_def
    by (simp only: option.case loop prod.case sum.case)
  show ?thesis
    unfolding ri by (simp add: un d(3) c(4) b(4) a(4))
qed

lemma write_frame:
  "reg_errno (snd (lp8755_write r v w)) = reg_errno w \<and>
   irq_errno (snd (lp8755_write r v w)) = irq_errno w \<and>
   framework_calls (trace (snd (lp8755_write r v w))) = framework_calls (trace w)"
  by (auto simp: lp8755_write_def regmap_write_def Let_def framework_calls_def
      split: list.splits option.splits)

lemma output_disable_frame:
  "framework_calls (trace (output_disable w)) = framework_calls (trace w)"
  by (simp add: output_disable_def upt6 write_frame)

lemma set_default_data_fold:
  "mphase (fold (set_default_data mp) xs c) = mphase c \<and>
   rdev (fold (set_default_data mp) xs c) = rdev c"
  by (induction xs arbitrary: c) (simp_all add: set_default_data_def Let_def)

lemma init_data_code1:
  assumes "bus_quiet 1 w" and "(ucast (regs w 0x3D) :: u32) AND 0x0F = 1"
  shows "\<exists>c1 w1. lp8755_init_data c w = Some (Inr (), c1, w1) \<and> mphase c1 = 1 \<and> rdev c1 = rdev c \<and>
           reg_errno w1 = reg_errno w \<and> framework_calls (trace w1) = framework_calls (trace w)"
proof -
  have q: "bus_quiet (Suc 0) w" using assms(1) by simp
  show ?thesis
    unfolding lp8755_init_data_def read_quiet[OF q]
    by (simp add: assms(2) mphase_buck_at_1 set_default_data_fold framework_calls_def)
qed

lemma probe_chip_rollback:
  assumes "mphase pchip = 1"
    and "rdev pchip = (\<lambda>_. None)"
    and "reg_errno w 0 = None" and "reg_errno w 1 = None" and "reg_errno w 2 = None"
    and "reg_errno w 3 = Some n"
  shows "(case probe_chip client pchip w of
            None \<Rightarrow> False
          | Some (r, w1) \<Rightarrow>
              r = Inl (RegistrationFailure n) \<and>
              framework_calls (trace w1) = framework_calls (trace w) @
                [Registered 0, Registered 1, Registered 2, Register_rejected 3,
                 Unregistered 0, Unregistered 1, Unregistered 2])"
  using regulator_init_rollback[OF assms]
  by (auto simp: probe_chip_def output_disable_frame split: option.splits)

text \<open>
  Claim C8. If bring-up fails while registering the 4th of 6 active rails (topology code
  1, supplied as platform data or read from register 0x3D; rails 0, 1, 2 accepted, rail 3
  rejected), then the 3 rails already registered are deregistered in the order they were
  registered, no further rail is registered, and bring-up returns the registration error
  of rail 3. This holds for \<^verbatim>\<open>lp8755_probe\<close> and for \<^verbatim>\<open>lp8755_regulator_init\<close> on a
  chip whose handle slots are all empty.
\<close>

theorem probe_fourth_registration_fails:
  assumes "reg_errno w 0 = None" and "reg_errno w 1 = None" and "reg_errno w 2 = None"
    and "reg_errno w 3 = Some n"
    and "i2c_functionality client" and "chip_alloc_ok client" and "regmap_errno client = None"
    and "(case platform_data client of
            Some pd \<Rightarrow> pdata_mphase pd = 1
          | None \<Rightarrow> pdata_alloc_ok client \<and> bus_quiet 1 w \<and> (ucast (regs w 0x3D) :: u32) AND 0x0F = 1)"
  shows "(case lp8755_probe client w of
            None \<Rightarrow> False
          | Some (r, w1) \<Rightarrow>
              r = Inl (RegistrationFailure n) \<and>
              framework_calls (trace w1) = framework_calls (trace w) @
                [Registered 0, Registered 1, Registered 2, Register_rejected 3,
                 Unregistered 0, Unregistered 1, Unregistered 2]) \<and>
         (case lp8755_regulator_init (zeroed_chip\<lparr>pdata := pd0, mphase := 1\<rparr>) w of
            None \<Rightarrow> False
          | Some (r, c1, w1) \<Rightarrow>
              r = Inl (RegistrationFailure n) \<and>
              framework_calls (trace w1) = framework_calls (trace w) @
                [Registered 0, Registered 1, Registered 2, Register_rejected 3,
                 Unregistered 0, Unregistered 1, Unregistered 2])"
proof (rule conjI)
  show "(case lp8755_regulator_init (zeroed_chip\<lparr>pdata := pd0, mphase := 1\<rparr>) w of
            None \<Rightarrow> False
          | Some (r, c1, w1) \<Rightarrow>
              r = Inl (RegistrationFailure n) \<and>
              framework_calls (trace w1) = framework_calls (trace w) @
                [Registered 0, Registered 1, Registered 2, Register_rejected 3,
                 Unregistered 0, Unregistered 1, Unregistered 2])"
    by (rule regulator_init_rollback[OF _ _ assms(1-4)]) (simp_all add: zeroed_chip_def)
next
  show "(case lp8755_probe client w of
            None \<Rightarrow> False
          | Some (r, w1) \<Rightarrow>
              r = Inl (RegistrationFailure n) \<and>
              framework_calls (trace w1) = framework_calls (trace w) @
                [Registered 0, Registered 1, Registered 2, Register_rejected 3,
                 Unregistered 0, Unregistered 1, Unregistered 2])"
  proof (cases "platform_data client")
  case (Some pd)
  with assms(8) have m: "pdata_mphase pd = 1" by simp
  have p: "lp8755_probe client w = probe_chip client (zeroed_chip\<lparr>pdata := pd, mphase := pdata_mphase pd\<rparr>) w"
    using assms(5-7) Some by (simp add: lp8755_probe_def)
  show ?thesis
    unfolding p
    by (rule probe_chip_rollback[OF _ _ assms(1-4)]) (simp_all add: m zeroed_chip_def)
next
  case None
  with assms(8) have h: "pdata_alloc_ok client" "bus_quiet 1 w" "(ucast (regs w 0x3D) :: u32) AND 0x0F = 1"
    by simp_all
  obtain c1 w1 where i: "lp8755_init_data (zeroed_chip\<lparr>pdata := zeroed_pdata\<rparr>) w = Some (Inr (), c1, w1)"
    "mphase c1 = 1" "rdev c1 = rdev (zeroed_chip\<lparr>pdata := zeroed_pdata\<rparr>)"
    "reg_errno w1 = reg_errno w" "framework_calls (trace w1) = framework_calls (trace w)"
    using init_data_code1[OF h(2,3)] by blast
  have p: "lp8755_probe client w = probe_chip client c1 w1"
    using assms(5-7) None h(1) by (simp add: lp8755_probe_def i(1))
  have e: "reg_errno w1 0 = None" "reg_errno w1 1 = None" "reg_errno w1 2 = None" "reg_errno w1 3 = Some n"
    using assms(1-4) by (simp_all add: i(4))
  have "(case probe_chip client c1 w1 of
            None \<Rightarrow> False
          | Some (r, w2) \<Rightarrow>
              r = Inl (RegistrationFailure n) \<and>
              framework_calls (trace w2) = framework_calls (trace w1) @
                [Registered 0, Registered 1, Registered 2, Register_rejected 3,
                 Unregistered 0, Unregistered 1, Unregistered 2])"
    by (rule probe_chip_rollback[OF _ _ e]) (simp_all add: i(2,3) zeroed_chip_def)
  then show ?thesis
    unfolding p i(5) .
qed
qed

lemmas lifecycle_defs =
  lp8755_probe_def probe_chip_def lp8755_init_data_def lp8755_regulator_init_def
  lp8755_int_config_def lp8755_remove_def output_disable_def unregister_slots_def
  regulator_register_def regulator_unregister_def set_default_data_def
  mphase_buck_at_def mphase_buck_def MPHASE_CONF_MAX_def LP8755_BUCK_MAX_def
  BUCK0_def BUCK1_def BUCK2_def BUCK3_def BUCK4_def BUCK5_def
  zeroed_chip_def zeroed_pdata_def board_client_def
  lp8755_buck_set_ramp_def ramp_regval_def framework_calls_def

theorem probe_fourth_registration_fails_witness:
  "reg_errno reject3_world 0 = None \<and> reg_errno reject3_world 1 = None \<and>
   reg_errno reject3_world 2 = None \<and> reg_errno reject3_world 3 = Some 12 \<and>
   i2c_functionality board_client \<and> chip_alloc_ok board_client \<and> regmap_errno board_client = None \<and>
   platform_data board_client = None \<and> pdata_alloc_ok board_client \<and> bus_quiet 1 reject3_world \<and>
   (ucast (regs reject3_world 0x3D) :: u32) AND 0x0F = 1 \<and>
   (case lp8755_probe board_client reject3_world of
      None \<Rightarrow> False
    | Some (r, w1) \<Rightarrow>
        r = Inl (RegistrationFailure 12) \<and>
        framework_calls (trace w1) =
          [Registered 0, Registered 1, Registered 2, Register_rejected 3,
           Unregistered 0, Unregistered 1, Unregistered 2])"
proof -
  have h: "reg_errno reject3_world 0 = None" "reg_errno reject3_world 1 = None"
    "reg_errno reject3_world 2 = None" "reg_errno reject3_world 3 = Some 12"
    by (simp_all add: reject3_world_def quiet_world_def)
  have k: "i2c_functionality board_client" "chip_alloc_ok board_client" "regmap_errno board_client = None"
    by (simp_all add: board_client_def)
  have p: "platform_data board_client = None" "pdata_alloc_ok board_client"
    by (simp_all add: board_client_def)
  have b: "bus_quiet 1 reject3_world" "(ucast (regs reject3_world 0x3D) :: u32) AND 0x0F = 1"
    by (simp_all add: reject3_world_def quiet_world_def bus_quiet_def)
  have t: "framework_calls (trace reject3_world) = []"
    by (simp add: reject3_world_def quiet_world_def framework_calls_def)
  have c: "(case platform_data board_client of
            Some pd \<Rightarrow> pdata_mphase pd = 1
          | None \<Rightarrow> pdata_alloc_ok board_client \<and> bus_quiet 1 reject3_world \<and>
                    (ucast (regs reject3_world 0x3D) :: u32) AND 0x0F = 1)"
    using p b by simp
  from probe_fourth_registration_fails[OF h k c, of zeroed_pdata, unfolded t append_Nil]
  have "(case lp8755_probe board_client reject3_world of
      None \<Rightarrow> False
    | Some (r, w1) \<Rightarrow>
        r = Inl (RegistrationFailure 12) \<and>
        framework_calls (trace w1) =
          [Registered 0, Registered 1, Registered 2, Register_rejected 3,
           Unregistered 0, Unregistered 1, Unregistered 2])"
    by (rule conjunct1)
  with h k p b show ?thesis by blast
qed

subsection \<open>Topology codes outside the table\<close>

lemma init_data_invalid_code:
  assumes "bus_quiet 1 w" and "9 \<le> uint ((ucast (regs w 0x3D) :: u32) AND 0x0F)"
  shows "lp8755_init_data c w = None"
proof -
  have q: "bus_quiet (Suc 0) w" using assms(1) by simp
  show ?thesis
    unfolding lp8755_init_data_def read_quiet[OF q]
    using assms(2) by (simp add: mphase_buck_at_def MPHASE_CONF_MAX_def)
qed

text \<open>
  Claim C1 (every topology code 9..15 is answered with the invalid-topology error, and
  bring-up that reads such a code fails with it) against the code: when register 0x3D
  reads 0x09, \<^verbatim>\<open>lp8755_init_data\<close> stores 9 in \<open>mphase\<close> and at once evaluates
  \<^verbatim>\<open>mphase_buck[9].nreg\<close>, one entry past the end of the nine-entry table. No error is
  returned; the read is out of bounds, both in \<^verbatim>\<open>lp8755_init_data\<close> and in the
  \<^verbatim>\<open>lp8755_probe\<close> that calls it.
\<close>

theorem init_data_code9_out_of_bounds:
  "fst (lp8755_read 0x3D code9_world) = Inr 0x09 \<and>
   mphase_buck_at 9 = None \<and>
   lp8755_init_data (zeroed_chip\<lparr>pdata := zeroed_pdata\<rparr>) code9_world = None \<and>
   lp8755_probe board_client code9_world = None"
  by (simp add: lifecycle_defs eval_defs code9_world_def)

subsection \<open>Teardown\<close>

lemma probe_code0:
  "(case lp8755_probe board_client quiet_world of
      Some (Inr c, w1) \<Rightarrow> mphase c = 0 \<and> irq c = 0 \<and>
         rdev c = (\<lambda>_. None)(0 := Some (buck 0), 3 := Some (buck 3), 5 := Some (buck 5)) \<and>
         framework_calls (trace w1) = [Registered 0, Registered 3, Registered 5]
    | _ \<Rightarrow> False)"
  by (simp add: lifecycle_defs eval_defs upt_conv_Cons)

lemma output_disable_trace:
  "trace (output_disable w) = trace w @ map (\<lambda>i. Reg_write i 0x00) [0..<6]"
proof -
  have w: "\<And>r v w. trace (snd (lp8755_write r v w)) = trace w @ [Reg_write r v]"
    by (auto simp: lp8755_write_def regmap_write_def Let_def split: list.splits option.splits)
  show ?thesis
    by (simp add: output_disable_def upt6 w)
qed

lemma enable_regs: "map (\<lambda>i. enable_reg (desc (buck i))) [0, 1, 2, 3, 4, 5] = [0, 3, 4, 1, 5, 2]"
  by (simp add: eval_defs)

lemma remove_trace:
  assumes "mphase_buck_at (mphase c) = Some mp"
  shows "\<exists>w2. lp8755_remove c w = Some w2 \<and>
           trace w2 = trace w @
             map (\<lambda>r. Unregistered (rdev_get_id r)) (List.map_filter (rdev c) [0..<nreg mp]) @
             map (\<lambda>i. Reg_write i 0x00) [0..<6] @
             (if irq c \<noteq> 0 then [Irq_freed (irq c)] else [])"
  by (simp add: lp8755_remove_def assms Let_def free_irq_def output_disable_trace
      unregister_slots_trace)

text \<open>
  Claim C2 (for every valid topology code, teardown deregisters exactly the rails that
  bring-up registered, in registration order, and writes zero to all six enable
  registers) against the code at topology code 0: bring-up registers rails 0, 3 and 5;
  \<^verbatim>\<open>lp8755_remove\<close> hands the slots \<open>rdev[0]\<close>, \<open>rdev[1]\<close>, \<open>rdev[2]\<close> (the loop
  counter, not \<open>buck_num[icnt]\<close>) to \<^verbatim>\<open>regulator_unregister\<close>, so only rail 0 is
  deregistered and rails 3 and 5 stay registered. The six zero writes are done.
\<close>

theorem remove_code0_leaves_rails_registered:
  "(case lp8755_probe board_client quiet_world of
      Some (Inr c, w1) \<Rightarrow>
        framework_calls (trace w1) = [Registered 0, Registered 3, Registered 5] \<and>
        (case lp8755_remove c w1 of
           None \<Rightarrow> False
         | Some w2 \<Rightarrow>
             drop (length (trace w1)) (trace w2) =
               [Unregistered 0, Reg_write 0 0, Reg_write 1 0, Reg_write 2 0,
                Reg_write 3 0, Reg_write 4 0, Reg_write 5 0])
    | _ \<Rightarrow> False)"
proof -
  obtain c w1 where p: "lp8755_probe board_client quiet_world = Some (Inr c, w1)"
    and c: "mphase c = 0" "irq c = 0"
      "rdev c = (\<lambda>_. None)(0 := Some (buck 0), 3 := Some (buck 3), 5 := Some (buck 5))"
    and t: "framework_calls (trace w1) = [Registered 0, Registered 3, Registered 5]"
    using probe_code0 by (auto split: option.splits prod.splits sum.splits)
  have m: "mphase_buck_at (mphase c) = Some \<lparr>nreg = 3, buck_num = [0, 3, 5, 0, 0, 0]\<rparr>"
    by (simp add: c(1) mphase_buck_at_def MPHASE_CONF_MAX_def mphase_buck_def BUCK0_def BUCK3_def BUCK5_def)
  obtain w2 where r: "lp8755_remove c w1 = Some w2"
    and tr: "trace w2 = trace w1 @
             map (\<lambda>r. Unregistered (rdev_get_id r)) (List.map_filter (rdev c) [0..<3]) @
             map (\<lambda>i. Reg_write i 0x00) [0..<6] @
             (if irq c \<noteq> 0 then [Irq_freed (irq c)] else [])"
    using remove_trace[OF m, of w1] by auto
  have "drop (length (trace w1)) (trace w2) =
               [Unregistered 0, Reg_write 0 0, Reg_write 1 0, Reg_write 2 0,
                Reg_write 3 0, Reg_write 4 0, Reg_write 5 0]"
    unfolding tr by (simp add: c(2,3) upt_conv_Cons map_filter_def buck_id)
  then show ?thesis
    by (simp add: p t r)
qed

end
